theory Spec2Isabelle
  imports Main "HOL-Library.Word"
begin

section \<open>The wire value model\<close>

text \<open>
  The generated file \<^verbatim>\<open>.gen/go/cadence/workflowservice_listclosedworkflowexecutions.go\<close>
  works on the intermediate representation of \<^verbatim>\<open>go.uber.org/thriftrw/wire\<close>: a
  \<^verbatim>\<open>wire.Value\<close> is a tagged value, a \<^verbatim>\<open>wire.Struct\<close> is a list of
  \<^verbatim>\<open>wire.Field{ID int16; Value wire.Value}\<close> in insertion order. A double is kept as
  its 64 bits, as the library keeps it.
\<close>

datatype wire_Type =
  TBool | TI8 | TDouble | TI16 | TI32 | TI64 | TBinary | TStruct | TMap | TSet | TList

datatype wire_Value =
    ValueBool bool
  | ValueI8 "8 word"
  | ValueDouble "64 word"
  | ValueI16 "16 word"
  | ValueI32 "32 word"
  | ValueI64 "64 word"
  | ValueBinary "8 word list"
  | ValueStruct "wire_Field list"
  | ValueMap wire_Type wire_Type "(wire_Value \<times> wire_Value) list"
  | ValueSet wire_Type "wire_Value list"
  | ValueList wire_Type "wire_Value list"
and wire_Field = Field (ID: "16 word") (Value: wire_Value)

text \<open>\<^verbatim>\<open>Value.Type()\<close>: the tag of a wire value.\<close>

fun Type :: "wire_Value \<Rightarrow> wire_Type" where
  "Type (ValueBool _) = TBool"
| "Type (ValueI8 _) = TI8"
| "Type (ValueDouble _) = TDouble"
| "Type (ValueI16 _) = TI16"
| "Type (ValueI32 _) = TI32"
| "Type (ValueI64 _) = TI64"
| "Type (ValueBinary _) = TBinary"
| "Type (ValueStruct _) = TStruct"
| "Type (ValueMap _ _ _) = TMap"
| "Type (ValueSet _ _) = TSet"
| "Type (ValueList _ _) = TList"

text \<open>
  \<^verbatim>\<open>Value.GetStruct()\<close> returns the struct member of the value; for a value of another
  type that member is the zero \<^verbatim>\<open>wire.Struct\<close>, which has no fields.
\<close>

fun GetStruct :: "wire_Value \<Rightarrow> wire_Field list" where
  "GetStruct (ValueStruct flds) = flds"
| "GetStruct _ = []"

section \<open>Go errors\<close>

text \<open>
  A Go \<^verbatim>\<open>error\<close> is an interface value: \<^verbatim>\<open>nil\<close> (modelled as \<open>None\<close>), or a
  dynamic type together with a value of it. The five exception types of the method are
  pointer types, so an interface value of such a type may hold a nil pointer (a typed
  nil); \<^verbatim>\<open>errors.New\<close> and \<^verbatim>\<open>fmt.Errorf\<close> build an error from its message; every
  other dynamic type is \<open>OtherError\<close>. A pointer is modelled by the value it points to.
\<close>

datatype ('bre, 'ise, 'ene, 'sbe, 'cvn, 'oth) go_error =
    Ptr_BadRequestError "'bre option"
  | Ptr_InternalServiceError "'ise option"
  | Ptr_EntityNotExistsError "'ene option"
  | Ptr_ServiceBusyError "'sbe option"
  | Ptr_ClientVersionNotSupportedError "'cvn option"
  | ErrorString string
  | OtherError 'oth

section \<open>The nested struct types of package shared\<close>

text \<open>
  The request, the response and the five exception structs live in package
  \<^verbatim>\<open>shared\<close>; the generated file only calls their \<^verbatim>\<open>ToWire\<close>, \<^verbatim>\<open>FromWire\<close> and
  \<^verbatim>\<open>Equals\<close> methods. Each of them is a type parameter here, with its three methods as
  a parameter: \<open>ToWire_of\<close> is \<^verbatim>\<open>x.ToWire()\<close>, \<open>FromWire_of w\<close> is the struct and the
  error left by \<^verbatim>\<open>var v T; err := v.FromWire(w)\<close>, \<open>Equals_of\<close> is \<^verbatim>\<open>x.Equals(y)\<close>.
\<close>

record ('a, 'e) struct_ops =
  ToWire_of :: "'a \<Rightarrow> 'e + wire_Value"
  FromWire_of :: "wire_Value \<Rightarrow> 'a \<times> 'e option"
  Equals_of :: "'a \<Rightarrow> 'a \<Rightarrow> bool"

text \<open>
  The readers \<^verbatim>\<open>_ListClosedWorkflowExecutionsRequest_Read\<close>,
  \<^verbatim>\<open>_ListClosedWorkflowExecutionsResponse_Read\<close> and the five \<^verbatim>\<open>_<Exception>_Read\<close>
  all have one body: decode into a fresh struct and return its address with the error.
  The address is not nil even when the error is not.
\<close>

definition struct_Read :: "('a, 'e) struct_ops \<Rightarrow> wire_Value \<Rightarrow> 'a \<times> 'e option" where
  "struct_Read ops w = FromWire_of ops w"

text \<open>
  The loop \<^verbatim>\<open>for _, field := range fields { ... return err ... }\<close>: the body updates the
  receiver and the first error ends the loop, leaving the receiver as it then is.
\<close>

fun range_Fields ::
  "('v \<Rightarrow> wire_Field \<Rightarrow> 'v \<times> 'e option) \<Rightarrow> 'v \<Rightarrow> wire_Field list \<Rightarrow> 'v \<times> 'e option" where
  "range_Fields body v [] = (v, None)"
| "range_Fields body v (field # flds) =
     (case body v field of
        (v', Some err) \<Rightarrow> (v', Some err)
      | (v', None) \<Rightarrow> range_Fields body v' flds)"

text \<open>
  One step of \<^verbatim>\<open>ToWire\<close>: when the slot is not nil, encode it, return its error if there
  is one, and store the field at \<^verbatim>\<open>fields[i]\<close>, \<^verbatim>\<open>i++\<close>. The list \<open>flds\<close> holds
  \<^verbatim>\<open>fields[:i]\<close>, so \<^verbatim>\<open>i\<close> is its length.
\<close>

definition put_Field ::
  "('a, 'e) struct_ops \<Rightarrow> 16 word \<Rightarrow> 'a option \<Rightarrow> wire_Field list \<Rightarrow> 'e + wire_Field list" where
  "put_Field ops n slot flds =
     (case slot of
        None \<Rightarrow> Inr flds
      | Some x \<Rightarrow>
          (case ToWire_of ops x of
             Inl err \<Rightarrow> Inl err
           | Inr w \<Rightarrow> Inr (flds @ [Field n w])))"

definition and_then :: "'e + 'a \<Rightarrow> ('a \<Rightarrow> 'e + 'b) \<Rightarrow> 'e + 'b" where
  "and_then r k = (case r of Inl err \<Rightarrow> Inl err | Inr x \<Rightarrow> k x)"

section \<open>The arguments struct\<close>

text \<open>
  \<open>Args\<close> is \<^verbatim>\<open>WorkflowService_ListClosedWorkflowExecutions_Args\<close>; its methods carry the
  prefix \<open>Args_\<close>.
\<close>

record 'rq Args =
  ListRequest :: "'rq option"

definition Args_zero :: "'rq Args" where
  "Args_zero = \<lparr>ListRequest = None\<rparr>"

definition Args_ToWire :: "('rq, 'e) struct_ops \<Rightarrow> 'rq Args \<Rightarrow> 'e + wire_Value" where
  "Args_ToWire rq v =
     and_then (put_Field rq 1 (ListRequest v) [])
       (\<lambda>flds. Inr (ValueStruct flds))"

definition Args_field :: "('rq, 'e) struct_ops \<Rightarrow> 'rq Args \<Rightarrow> wire_Field \<Rightarrow> 'rq Args \<times> 'e option" where
  "Args_field rq v field =
     (if ID field = 1 then
        (if Type (Value field) = TStruct then
           (case struct_Read rq (Value field) of
              (x, err) \<Rightarrow> (v\<lparr>ListRequest := Some x\<rparr>, err))
         else (v, None))
      else (v, None))"

definition Args_FromWire ::
  "('rq, 'e) struct_ops \<Rightarrow> 'rq Args \<Rightarrow> wire_Value \<Rightarrow> 'rq Args \<times> 'e option" where
  "Args_FromWire rq v w = range_Fields (Args_field rq) v (GetStruct w)"

text \<open>
  The comparison of one pointer slot in \<^verbatim>\<open>Equals\<close>:
  \<^verbatim>\<open>(l == nil && r == nil) || (l != nil && r != nil && l.Equals(r))\<close>.
\<close>

definition slot_Equals :: "('a, 'e) struct_ops \<Rightarrow> 'a option \<Rightarrow> 'a option \<Rightarrow> bool" where
  "slot_Equals ops l r =
     (case (l, r) of
        (None, None) \<Rightarrow> True
      | (Some x, Some y) \<Rightarrow> Equals_of ops x y
      | _ \<Rightarrow> False)"

definition Args_Equals :: "('rq, 'e) struct_ops \<Rightarrow> 'rq Args \<Rightarrow> 'rq Args \<Rightarrow> bool" where
  "Args_Equals rq v rhs =
     (if \<not> slot_Equals rq (ListRequest v) (ListRequest rhs) then False else True)"

definition MethodName :: string where
  "MethodName = ''ListClosedWorkflowExecutions''"

section \<open>The result struct\<close>

text \<open>
  \<open>Result\<close> is \<^verbatim>\<open>WorkflowService_ListClosedWorkflowExecutions_Result\<close>: six pointer slots,
  the return value and the five exceptions of the method. The slot of
  \<^verbatim>\<open>*shared.EntityNotExistsError\<close> is named \<^verbatim>\<open>EntityNotExistError\<close>.
\<close>

record ('rs, 'bre, 'ise, 'ene, 'sbe, 'cvn) Result =
  Success :: "'rs option"
  BadRequestError :: "'bre option"
  InternalServiceError :: "'ise option"
  EntityNotExistError :: "'ene option"
  ServiceBusyError :: "'sbe option"
  ClientVersionNotSupportedError :: "'cvn option"

definition Result_zero :: "('rs, 'bre, 'ise, 'ene, 'sbe, 'cvn) Result" where
  "Result_zero =
     \<lparr>Success = None, BadRequestError = None, InternalServiceError = None,
      EntityNotExistError = None, ServiceBusyError = None,
      ClientVersionNotSupportedError = None\<rparr>"

text \<open>The methods of the six nested struct types.\<close>

record ('rs, 'bre, 'ise, 'ene, 'sbe, 'cvn, 'oth) shared_ops =
  Response_ops :: "('rs, ('bre, 'ise, 'ene, 'sbe, 'cvn, 'oth) go_error) struct_ops"
  BadRequestError_ops :: "('bre, ('bre, 'ise, 'ene, 'sbe, 'cvn, 'oth) go_error) struct_ops"
  InternalServiceError_ops :: "('ise, ('bre, 'ise, 'ene, 'sbe, 'cvn, 'oth) go_error) struct_ops"
  EntityNotExistsError_ops :: "('ene, ('bre, 'ise, 'ene, 'sbe, 'cvn, 'oth) go_error) struct_ops"
  ServiceBusyError_ops :: "('sbe, ('bre, 'ise, 'ene, 'sbe, 'cvn, 'oth) go_error) struct_ops"
  ClientVersionNotSupportedError_ops ::
    "('cvn, ('bre, 'ise, 'ene, 'sbe, 'cvn, 'oth) go_error) struct_ops"

text \<open>\<^verbatim>\<open>%v\<close> of a Go \<^verbatim>\<open>int\<close> that is not negative: its decimal digits.\<close>

fun decimal :: "nat \<Rightarrow> string" where
  "decimal n =
     (if n < 10 then [char_of (48 + n)]
      else decimal (n div 10) @ [char_of (48 + n mod 10)])"

text \<open>
  \<^verbatim>\<open>fmt.Errorf("WorkflowService_ListClosedWorkflowExecutions_Result should have exactly
  one field: got %v fields", n)\<close>, the error of both arity checks.
\<close>

definition arity_error :: "nat \<Rightarrow> ('bre, 'ise, 'ene, 'sbe, 'cvn, 'oth) go_error" where
  "arity_error n =
     ErrorString
       (''WorkflowService_ListClosedWorkflowExecutions_Result should have exactly one field: got ''
        @ decimal n @ '' fields'')"

definition Result_ToWire ::
  "('rs, 'bre, 'ise, 'ene, 'sbe, 'cvn, 'oth) shared_ops \<Rightarrow>
   ('rs, 'bre, 'ise, 'ene, 'sbe, 'cvn) Result \<Rightarrow>
   ('bre, 'ise, 'ene, 'sbe, 'cvn, 'oth) go_error + wire_Value" where
  "Result_ToWire S v =
     and_then (put_Field (Response_ops S) 0 (Success v) []) (\<lambda>f0.
     and_then (put_Field (BadRequestError_ops S) 1 (BadRequestError v) f0) (\<lambda>f1.
     and_then (put_Field (InternalServiceError_ops S) 2 (InternalServiceError v) f1) (\<lambda>f2.
     and_then (put_Field (EntityNotExistsError_ops S) 3 (EntityNotExistError v) f2) (\<lambda>f3.
     and_then (put_Field (ServiceBusyError_ops S) 4 (ServiceBusyError v) f3) (\<lambda>f4.
     and_then (put_Field (ClientVersionNotSupportedError_ops S) 5
                 (ClientVersionNotSupportedError v) f4) (\<lambda>f5.
     (let i = length f5 in
      if i \<noteq> 1 then Inl (arity_error i) else Inr (ValueStruct f5))))))))"

definition Result_field ::
  "('rs, 'bre, 'ise, 'ene, 'sbe, 'cvn, 'oth) shared_ops \<Rightarrow>
   ('rs, 'bre, 'ise, 'ene, 'sbe, 'cvn) Result \<Rightarrow> wire_Field \<Rightarrow>
   ('rs, 'bre, 'ise, 'ene, 'sbe, 'cvn) Result \<times>
   ('bre, 'ise, 'ene, 'sbe, 'cvn, 'oth) go_error option" where
  "Result_field S v field =
     (if ID field = 0 then
        (if Type (Value field) = TStruct then
           (case struct_Read (Response_ops S) (Value field) of
              (x, err) \<Rightarrow> (v\<lparr>Success := Some x\<rparr>, err))
         else (v, None))
      else if ID field = 1 then
        (if Type (Value field) = TStruct then
           (case struct_Read (BadRequestError_ops S) (Value field) of
              (x, err) \<Rightarrow> (v\<lparr>BadRequestError := Some x\<rparr>, err))
         else (v, None))
      else if ID field = 2 then
        (if Type (Value field) = TStruct then
           (case struct_Read (InternalServiceError_ops S) (Value field) of
              (x, err) \<Rightarrow> (v\<lparr>InternalServiceError := Some x\<rparr>, err))
         else (v, None))
      else if ID field = 3 then
        (if Type (Value field) = TStruct then
           (case struct_Read (EntityNotExistsError_ops S) (Value field) of
              (x, err) \<Rightarrow> (v\<lparr>EntityNotExistError := Some x\<rparr>, err))
         else (v, None))
      else if ID field = 4 then
        (if Type (Value field) = TStruct then
           (case struct_Read (ServiceBusyError_ops S) (Value field) of
              (x, err) \<Rightarrow> (v\<lparr>ServiceBusyError := Some x\<rparr>, err))
         else (v, None))
      else if ID field = 5 then
        (if Type (Value field) = TStruct then
           (case struct_Read (ClientVersionNotSupportedError_ops S) (Value field) of
              (x, err) \<Rightarrow> (v\<lparr>ClientVersionNotSupportedError := Some x\<rparr>, err))
         else (v, None))
      else (v, None))"

text \<open>The count of the slots that are not nil, as both arity checks take it.\<close>

definition Result_count :: "('rs, 'bre, 'ise, 'ene, 'sbe, 'cvn) Result \<Rightarrow> nat" where
  "Result_count v =
     (if Success v \<noteq> None then 1 else 0) +
     (if BadRequestError v \<noteq> None then 1 else 0) +
     (if InternalServiceError v \<noteq> None then 1 else 0) +
     (if EntityNotExistError v \<noteq> None then 1 else 0) +
     (if ServiceBusyError v \<noteq> None then 1 else 0) +
     (if ClientVersionNotSupportedError v \<noteq> None then 1 else 0)"

definition Result_FromWire ::
  "('rs, 'bre, 'ise, 'ene, 'sbe, 'cvn, 'oth) shared_ops \<Rightarrow>
   ('rs, 'bre, 'ise, 'ene, 'sbe, 'cvn) Result \<Rightarrow> wire_Value \<Rightarrow>
   ('rs, 'bre, 'ise, 'ene, 'sbe, 'cvn) Result \<times>
   ('bre, 'ise, 'ene, 'sbe, 'cvn, 'oth) go_error option" where
  "Result_FromWire S v w =
     (case range_Fields (Result_field S) v (GetStruct w) of
        (v', Some err) \<Rightarrow> (v', Some err)
      | (v', None) \<Rightarrow>
          (let count = Result_count v' in
           if count \<noteq> 1 then (v', Some (arity_error count)) else (v', None)))"

definition Result_Equals ::
  "('rs, 'bre, 'ise, 'ene, 'sbe, 'cvn, 'oth) shared_ops \<Rightarrow>
   ('rs, 'bre, 'ise, 'ene, 'sbe, 'cvn) Result \<Rightarrow>
   ('rs, 'bre, 'ise, 'ene, 'sbe, 'cvn) Result \<Rightarrow> bool" where
  "Result_Equals S v rhs =
     (if \<not> slot_Equals (Response_ops S) (Success v) (Success rhs) then False
      else if \<not> slot_Equals (BadRequestError_ops S) (BadRequestError v) (BadRequestError rhs)
        then False
      else if \<not> slot_Equals (InternalServiceError_ops S)
                 (InternalServiceError v) (InternalServiceError rhs)
        then False
      else if \<not> slot_Equals (EntityNotExistsError_ops S)
                 (EntityNotExistError v) (EntityNotExistError rhs)
        then False
      else if \<not> slot_Equals (ServiceBusyError_ops S) (ServiceBusyError v) (ServiceBusyError rhs)
        then False
      else if \<not> slot_Equals (ClientVersionNotSupportedError_ops S)
                 (ClientVersionNotSupportedError v) (ClientVersionNotSupportedError rhs)
        then False
      else True)"

section \<open>The helper of the method\<close>

text \<open>
  The functions of \<^verbatim>\<open>WorkflowService_ListClosedWorkflowExecutions_Helper\<close>. A type switch
  selects on the dynamic type of the error, so a typed nil takes the case of its type and
  the nil interface takes \<^verbatim>\<open>default\<close>.
\<close>

definition IsException :: "('bre, 'ise, 'ene, 'sbe, 'cvn, 'oth) go_error option \<Rightarrow> bool" where
  "IsException err =
     (case err of
        Some (Ptr_BadRequestError _) \<Rightarrow> True
      | Some (Ptr_InternalServiceError _) \<Rightarrow> True
      | Some (Ptr_EntityNotExistsError _) \<Rightarrow> True
      | Some (Ptr_ServiceBusyError _) \<Rightarrow> True
      | Some (Ptr_ClientVersionNotSupportedError _) \<Rightarrow> True
      | _ \<Rightarrow> False)"

definition nil_value_error :: "string \<Rightarrow> ('bre, 'ise, 'ene, 'sbe, 'cvn, 'oth) go_error" where
  "nil_value_error slot =
     ErrorString
       (''WrapResponse received non-nil error type with nil value for WorkflowService_ListClosedWorkflowExecutions_Result.''
        @ slot)"

definition WrapResponse ::
  "'rs option \<Rightarrow> ('bre, 'ise, 'ene, 'sbe, 'cvn, 'oth) go_error option \<Rightarrow>
   ('rs, 'bre, 'ise, 'ene, 'sbe, 'cvn) Result option \<times>
   ('bre, 'ise, 'ene, 'sbe, 'cvn, 'oth) go_error option" where
  "WrapResponse success err =
     (case err of
        None \<Rightarrow> (Some (Result_zero\<lparr>Success := success\<rparr>), None)
      | Some (Ptr_BadRequestError e) \<Rightarrow>
          (if e = None then (None, Some (nil_value_error ''BadRequestError''))
           else (Some (Result_zero\<lparr>BadRequestError := e\<rparr>), None))
      | Some (Ptr_InternalServiceError e) \<Rightarrow>
          (if e = None then (None, Some (nil_value_error ''InternalServiceError''))
           else (Some (Result_zero\<lparr>InternalServiceError := e\<rparr>), None))
      | Some (Ptr_EntityNotExistsError e) \<Rightarrow>
          (if e = None then (None, Some (nil_value_error ''EntityNotExistError''))
           else (Some (Result_zero\<lparr>EntityNotExistError := e\<rparr>), None))
      | Some (Ptr_ServiceBusyError e) \<Rightarrow>
          (if e = None then (None, Some (nil_value_error ''ServiceBusyError''))
           else (Some (Result_zero\<lparr>ServiceBusyError := e\<rparr>), None))
      | Some (Ptr_ClientVersionNotSupportedError e) \<Rightarrow>
          (if e = None then (None, Some (nil_value_error ''ClientVersionNotSupportedError''))
           else (Some (Result_zero\<lparr>ClientVersionNotSupportedError := e\<rparr>), None))
      | Some other \<Rightarrow> (None, Some other))"

definition UnwrapResponse ::
  "('rs, 'bre, 'ise, 'ene, 'sbe, 'cvn) Result \<Rightarrow>
   'rs option \<times> ('bre, 'ise, 'ene, 'sbe, 'cvn, 'oth) go_error option" where
  "UnwrapResponse result =
     (if BadRequestError result \<noteq> None then
        (None, Some (Ptr_BadRequestError (BadRequestError result)))
      else if InternalServiceError result \<noteq> None then
        (None, Some (Ptr_InternalServiceError (InternalServiceError result)))
      else if EntityNotExistError result \<noteq> None then
        (None, Some (Ptr_EntityNotExistsError (EntityNotExistError result)))
      else if ServiceBusyError result \<noteq> None then
        (None, Some (Ptr_ServiceBusyError (ServiceBusyError result)))
      else if ClientVersionNotSupportedError result \<noteq> None then
        (None, Some (Ptr_ClientVersionNotSupportedError (ClientVersionNotSupportedError result)))
      else if Success result \<noteq> None then (Success result, None)
      else (None, Some (ErrorString ''expected a non-void result'')))"

section \<open>Notions of the specification\<close>

text \<open>
  What the specification asks of a nested struct type for a round trip: the value, when
  there is one, encodes without error to a wire struct, and decoding that struct gives
  back a value that \<^verbatim>\<open>Equals\<close> accepts.
\<close>

definition nested_ok :: "('a, 'e) struct_ops \<Rightarrow> 'a option \<Rightarrow> bool" where
  "nested_ok ops slot =
     (case slot of
        None \<Rightarrow> True
      | Some x \<Rightarrow>
          (case ToWire_of ops x of
             Inl err \<Rightarrow> False
           | Inr w \<Rightarrow>
               Type w = TStruct \<and>
               (case FromWire_of ops w of
                  (y, None) \<Rightarrow> Equals_of ops x y
                | (y, Some err) \<Rightarrow> False)))"

definition Result_nested_ok ::
  "('rs, 'bre, 'ise, 'ene, 'sbe, 'cvn, 'oth) shared_ops \<Rightarrow>
   ('rs, 'bre, 'ise, 'ene, 'sbe, 'cvn) Result \<Rightarrow> bool" where
  "Result_nested_ok S v =
     (nested_ok (Response_ops S) (Success v) \<and>
      nested_ok (BadRequestError_ops S) (BadRequestError v) \<and>
      nested_ok (InternalServiceError_ops S) (InternalServiceError v) \<and>
      nested_ok (EntityNotExistsError_ops S) (EntityNotExistError v) \<and>
      nested_ok (ServiceBusyError_ops S) (ServiceBusyError v) \<and>
      nested_ok (ClientVersionNotSupportedError_ops S) (ClientVersionNotSupportedError v))"

text \<open>
  A field of the wire is recognized for slot \<open>n\<close> when it carries the ID \<open>n\<close> and a
  value of the declared type, which is a struct for every slot. \<open>has_slot\<close> says that
  the wire has such a field, \<open>wire_count\<close> counts the six declared IDs that have one.
\<close>

definition type_matching :: "16 word \<Rightarrow> wire_Field \<Rightarrow> bool" where
  "type_matching n f = (ID f = n \<and> Type (Value f) = TStruct)"

definition has_slot :: "wire_Field list \<Rightarrow> 16 word \<Rightarrow> bool" where
  "has_slot flds n = list_ex (type_matching n) flds"

definition wire_count :: "wire_Field list \<Rightarrow> nat" where
  "wire_count flds = length (filter (has_slot flds) [0, 1, 2, 3, 4, 5])"

definition Args_recognized :: "wire_Field \<Rightarrow> bool" where
  "Args_recognized f = type_matching 1 f"

definition Result_recognized :: "wire_Field \<Rightarrow> bool" where
  "Result_recognized f = list_ex (\<lambda>n. type_matching n f) [0, 1, 2, 3, 4, 5]"

text \<open>Whether slot \<open>n\<close> of a result struct is populated.\<close>

definition populated :: "('rs, 'bre, 'ise, 'ene, 'sbe, 'cvn) Result \<Rightarrow> 16 word \<Rightarrow> bool" where
  "populated v n =
     (if n = 0 then Success v \<noteq> None
      else if n = 1 then BadRequestError v \<noteq> None
      else if n = 2 then InternalServiceError v \<noteq> None
      else if n = 3 then EntityNotExistError v \<noteq> None
      else if n = 4 then ServiceBusyError v \<noteq> None
      else if n = 5 then ClientVersionNotSupportedError v \<noteq> None
      else False)"

text \<open>
  The error of the nested decoder on a recognized field, and the first such error along
  the fields of the wire.
\<close>

definition read_error ::
  "('rs, 'bre, 'ise, 'ene, 'sbe, 'cvn, 'oth) shared_ops \<Rightarrow> wire_Field \<Rightarrow>
   ('bre, 'ise, 'ene, 'sbe, 'cvn, 'oth) go_error option" where
  "read_error S f =
     (if type_matching 0 f then snd (FromWire_of (Response_ops S) (Value f))
      else if type_matching 1 f then snd (FromWire_of (BadRequestError_ops S) (Value f))
      else if type_matching 2 f then snd (FromWire_of (InternalServiceError_ops S) (Value f))
      else if type_matching 3 f then snd (FromWire_of (EntityNotExistsError_ops S) (Value f))
      else if type_matching 4 f then snd (FromWire_of (ServiceBusyError_ops S) (Value f))
      else if type_matching 5 f then
        snd (FromWire_of (ClientVersionNotSupportedError_ops S) (Value f))
      else None)"

fun first_read_error ::
  "('rs, 'bre, 'ise, 'ene, 'sbe, 'cvn, 'oth) shared_ops \<Rightarrow> wire_Field list \<Rightarrow>
   ('bre, 'ise, 'ene, 'sbe, 'cvn, 'oth) go_error option" where
  "first_read_error S [] = None"
| "first_read_error S (f # flds) =
     (case read_error S f of Some err \<Rightarrow> Some err | None \<Rightarrow> first_read_error S flds)"

text \<open>The first element of a list of optional values that is present.\<close>

fun first_some :: "'a option list \<Rightarrow> 'a option" where
  "first_some [] = None"
| "first_some (None # xs) = first_some xs"
| "first_some (Some x # xs) = Some x"

text \<open>
  The error of the nested encoder on a populated slot, and the first such error along
  the slots in the order of their field IDs.
\<close>

definition encode_error :: "('a, 'e) struct_ops \<Rightarrow> 'a option \<Rightarrow> 'e option" where
  "encode_error ops slot =
     (case slot of
        None \<Rightarrow> None
      | Some x \<Rightarrow> (case ToWire_of ops x of Inl err \<Rightarrow> Some err | Inr w \<Rightarrow> None))"

definition first_encode_error ::
  "('rs, 'bre, 'ise, 'ene, 'sbe, 'cvn, 'oth) shared_ops \<Rightarrow>
   ('rs, 'bre, 'ise, 'ene, 'sbe, 'cvn) Result \<Rightarrow>
   ('bre, 'ise, 'ene, 'sbe, 'cvn, 'oth) go_error option" where
  "first_encode_error S v =
     first_some
       [encode_error (Response_ops S) (Success v),
        encode_error (BadRequestError_ops S) (BadRequestError v),
        encode_error (InternalServiceError_ops S) (InternalServiceError v),
        encode_error (EntityNotExistsError_ops S) (EntityNotExistError v),
        encode_error (ServiceBusyError_ops S) (ServiceBusyError v),
        encode_error (ClientVersionNotSupportedError_ops S) (ClientVersionNotSupportedError v)]"

text \<open>The fields that a slot contributes to the wire struct when its encoder accepts it.\<close>

definition enc_fields :: "('a, 'e) struct_ops \<Rightarrow> 16 word \<Rightarrow> 'a option \<Rightarrow> wire_Field list" where
  "enc_fields ops n slot =
     (case slot of
        None \<Rightarrow> []
      | Some x \<Rightarrow> (case ToWire_of ops x of Inl err \<Rightarrow> [] | Inr w \<Rightarrow> [Field n w]))"

text \<open>
  \<^verbatim>\<open>UnwrapResponse\<close> in the words of the specification: the exception slots in the order
  of their declaration, each as the error it stands for, then the success slot; the first
  populated one is returned, and the empty result is an error.
\<close>

definition exception_slots ::
  "('rs, 'bre, 'ise, 'ene, 'sbe, 'cvn) Result \<Rightarrow>
   ('bre, 'ise, 'ene, 'sbe, 'cvn, 'oth) go_error option list" where
  "exception_slots r =
     [map_option (\<lambda>e. Ptr_BadRequestError (Some e)) (BadRequestError r),
      map_option (\<lambda>e. Ptr_InternalServiceError (Some e)) (InternalServiceError r),
      map_option (\<lambda>e. Ptr_EntityNotExistsError (Some e)) (EntityNotExistError r),
      map_option (\<lambda>e. Ptr_ServiceBusyError (Some e)) (ServiceBusyError r),
      map_option (\<lambda>e. Ptr_ClientVersionNotSupportedError (Some e))
        (ClientVersionNotSupportedError r)]"

definition spec_UnwrapResponse ::
  "('rs, 'bre, 'ise, 'ene, 'sbe, 'cvn) Result \<Rightarrow>
   'rs option \<times> ('bre, 'ise, 'ene, 'sbe, 'cvn, 'oth) go_error option" where
  "spec_UnwrapResponse r =
     (case first_some (exception_slots r) of
        Some err \<Rightarrow> (None, Some err)
      | None \<Rightarrow>
          (case Success r of
             Some s \<Rightarrow> (Some s, None)
           | None \<Rightarrow> (None, Some (ErrorString ''expected a non-void result''))))"

text \<open>An error of one of the five exception types whose pointer is nil.\<close>

definition typed_nil :: "('bre, 'ise, 'ene, 'sbe, 'cvn, 'oth) go_error \<Rightarrow> bool" where
  "typed_nil err =
     (case err of
        Ptr_BadRequestError e \<Rightarrow> e = None
      | Ptr_InternalServiceError e \<Rightarrow> e = None
      | Ptr_EntityNotExistsError e \<Rightarrow> e = None
      | Ptr_ServiceBusyError e \<Rightarrow> e = None
      | Ptr_ClientVersionNotSupportedError e \<Rightarrow> e = None
      | _ \<Rightarrow> False)"

section \<open>An instance of the nested struct types\<close>

text \<open>
  To evaluate the theorems at concrete inputs, the nested types are instantiated with a
  struct of the shape \<^verbatim>\<open>{ 1: required string message }\<close>: it encodes to a wire struct
  with the binary field 1, and its decoder reads the binary fields numbered 1, the last
  one winning, and fails when there is none.
\<close>

type_synonym message = "8 word list"

type_synonym sample_error = "(message, message, message, message, message, unit) go_error"

fun message_of :: "wire_Field list \<Rightarrow> message option \<Rightarrow> message option" where
  "message_of [] m = m"
| "message_of (Field n (ValueBinary b) # flds) m =
     (if n = 1 then message_of flds (Some b) else message_of flds m)"
| "message_of (_ # flds) m = message_of flds m"

definition message_ToWire :: "message \<Rightarrow> sample_error + wire_Value" where
  "message_ToWire m = Inr (ValueStruct [Field 1 (ValueBinary m)])"

definition message_FromWire :: "wire_Value \<Rightarrow> message \<times> sample_error option" where
  "message_FromWire w =
     (case message_of (GetStruct w) None of
        None \<Rightarrow> ([], Some (ErrorString ''field Message is required''))
      | Some m \<Rightarrow> (m, None))"

definition message_ops :: "(message, sample_error) struct_ops" where
  "message_ops =
     \<lparr>ToWire_of = message_ToWire, FromWire_of = message_FromWire, Equals_of = (=)\<rparr>"

definition sample_shared ::
  "(message, message, message, message, message, message, unit) shared_ops" where
  "sample_shared =
     \<lparr>Response_ops = message_ops, BadRequestError_ops = message_ops,
      InternalServiceError_ops = message_ops, EntityNotExistsError_ops = message_ops,
      ServiceBusyError_ops = message_ops, ClientVersionNotSupportedError_ops = message_ops\<rparr>"

text \<open>
  A second instance, for the error paths of encoding: a struct type whose encoder rejects
  some of its values, here the empty message, as an encoder of package \<^verbatim>\<open>shared\<close>
  rejects a list that holds a nil element. In \<open>strict_shared\<close> it is the response type.
\<close>

definition strict_ops :: "(message, sample_error) struct_ops" where
  "strict_ops =
     message_ops\<lparr>ToWire_of :=
       (\<lambda>m. if m = [] then Inl (ErrorString ''empty message'') else message_ToWire m)\<rparr>"

definition strict_shared ::
  "(message, message, message, message, message, message, unit) shared_ops" where
  "strict_shared = sample_shared\<lparr>Response_ops := strict_ops\<rparr>"

section \<open>Properties\<close>

subsection \<open>Auxiliary facts\<close>

declare decimal.simps [simp del]

lemma decimal_small:
  "decimal 0 = ''0''" "decimal 1 = ''1''" "decimal 2 = ''2''" "decimal 6 = ''6''"
  by code_simp+

lemma arity_error_text:
  "arity_error n = ErrorString (''WorkflowService_'' @ MethodName @
      ''_Result should have exactly one field: got '' @ decimal n @ '' fields'')"
  by (simp add: arity_error_def MethodName_def)

lemmas sample_defs =
  sample_shared_def message_ops_def message_ToWire_def message_FromWire_def
  strict_shared_def strict_ops_def

lemma nested_ok_SomeE:
  assumes "nested_ok ops (Some x)"
  obtains w y where "ToWire_of ops x = Inr w" "Type w = TStruct"
    "FromWire_of ops w = (y, None)" "Equals_of ops x y"
  using assms unfolding nested_ok_def
  by (auto split: sum.splits prod.splits option.splits)

lemma Result_count_one_cases:
  assumes "Result_count v = 1"
  obtains (Success) x where "v = Result_zero\<lparr>Success := Some x\<rparr>"
    | (BadRequestError) x where "v = Result_zero\<lparr>BadRequestError := Some x\<rparr>"
    | (InternalServiceError) x where "v = Result_zero\<lparr>InternalServiceError := Some x\<rparr>"
    | (EntityNotExistError) x where "v = Result_zero\<lparr>EntityNotExistError := Some x\<rparr>"
    | (ServiceBusyError) x where "v = Result_zero\<lparr>ServiceBusyError := Some x\<rparr>"
    | (ClientVersionNotSupportedError) x where
        "v = Result_zero\<lparr>ClientVersionNotSupportedError := Some x\<rparr>"
proof (cases v)
  case (fields s b i e sb c)
  show ?thesis using assms that unfolding fields Result_count_def Result_zero_def
    by (cases s; cases b; cases i; cases e; cases sb; cases c) simp_all
qed

lemma Args_roundtrip:
  assumes "nested_ok rq (ListRequest a)"
  shows "\<exists>w. Args_ToWire rq a = Inr w \<and> snd (Args_FromWire rq Args_zero w) = None \<and>
    Args_Equals rq a (fst (Args_FromWire rq Args_zero w))"
proof (cases "ListRequest a")
  case None
  then show ?thesis
    by (simp add: Args_ToWire_def Args_FromWire_def Args_zero_def Args_Equals_def
        slot_Equals_def put_Field_def and_then_def)
next
  case (Some x)
  with assms obtain w y where n: "ToWire_of rq x = Inr w" "Type w = TStruct"
      "FromWire_of rq w = (y, None)" "Equals_of rq x y"
    by (auto elim: nested_ok_SomeE)
  have "Args_ToWire rq a = Inr (ValueStruct [Field 1 w])"
    by (simp add: Some n Args_ToWire_def put_Field_def and_then_def)
  moreover have "Args_FromWire rq Args_zero (ValueStruct [Field 1 w]) =
      (\<lparr>ListRequest = Some y\<rparr>, None)"
    by (simp add: n Args_FromWire_def Args_field_def struct_Read_def Args_zero_def)
  moreover have "Args_Equals rq a \<lparr>ListRequest = Some y\<rparr>"
    by (simp add: Some n Args_Equals_def slot_Equals_def)
  ultimately show ?thesis by simp
qed

lemma Result_roundtrip:
  assumes "Result_count v = 1" "Result_nested_ok S v"
  shows "\<exists>w. Result_ToWire S v = Inr w \<and> snd (Result_FromWire S Result_zero w) = None \<and>
    Result_Equals S v (fst (Result_FromWire S Result_zero w))"
  using assms(1)
proof (cases rule: Result_count_one_cases)
  case (Success x)
  from assms(2) have "nested_ok (Response_ops S) (Some x)"
    by (simp add: Result_nested_ok_def Success Result_zero_def)
  then obtain w y where n: "ToWire_of (Response_ops S) x = Inr w" "Type w = TStruct"
      "FromWire_of (Response_ops S) w = (y, None)" "Equals_of (Response_ops S) x y"
    by (rule nested_ok_SomeE)
  have "Result_ToWire S v = Inr (ValueStruct [Field 0 w])"
    by (simp add: Success n Result_ToWire_def Result_zero_def put_Field_def and_then_def)
  moreover have "Result_FromWire S Result_zero (ValueStruct [Field 0 w]) =
      (Result_zero\<lparr>Success := Some y\<rparr>, None)"
    by (simp add: n Result_FromWire_def Result_field_def struct_Read_def Result_count_def
        Result_zero_def)
  moreover have "Result_Equals S v (Result_zero\<lparr>Success := Some y\<rparr>)"
    by (simp add: Success n Result_Equals_def slot_Equals_def Result_zero_def)
  ultimately show ?thesis by simp
next
  case (BadRequestError x)
  from assms(2) have "nested_ok (BadRequestError_ops S) (Some x)"
    by (simp add: Result_nested_ok_def BadRequestError Result_zero_def)
  then obtain w y where n: "ToWire_of (BadRequestError_ops S) x = Inr w" "Type w = TStruct"
      "FromWire_of (BadRequestError_ops S) w = (y, None)" "Equals_of (BadRequestError_ops S) x y"
    by (rule nested_ok_SomeE)
  have "Result_ToWire S v = Inr (ValueStruct [Field 1 w])"
    by (simp add: BadRequestError n Result_ToWire_def Result_zero_def put_Field_def and_then_def)
  moreover have "Result_FromWire S Result_zero (ValueStruct [Field 1 w]) =
      (Result_zero\<lparr>BadRequestError := Some y\<rparr>, None)"
    by (simp add: n Result_FromWire_def Result_field_def struct_Read_def Result_count_def
        Result_zero_def)
  moreover have "Result_Equals S v (Result_zero\<lparr>BadRequestError := Some y\<rparr>)"
    by (simp add: BadRequestError n Result_Equals_def slot_Equals_def Result_zero_def)
  ultimately show ?thesis by simp
next
  case (InternalServiceError x)
  from assms(2) have "nested_ok (InternalServiceError_ops S) (Some x)"
    by (simp add: Result_nested_ok_def InternalServiceError Result_zero_def)
  then obtain w y where n: "ToWire_of (InternalServiceError_ops S) x = Inr w" "Type w = TStruct"
      "FromWire_of (InternalServiceError_ops S) w = (y, None)" "Equals_of (InternalServiceError_ops S) x y"
    by (rule nested_ok_SomeE)
  have "Result_ToWire S v = Inr (ValueStruct [Field 2 w])"
    by (simp add: InternalServiceError n Result_ToWire_def Result_zero_def put_Field_def and_then_def)
  moreover have "Result_FromWire S Result_zero (ValueStruct [Field 2 w]) =
      (Result_zero\<lparr>InternalServiceError := Some y\<rparr>, None)"
    by (simp add: n Result_FromWire_def Result_field_def struct_Read_def Result_count_def
        Result_zero_def)
  moreover have "Result_Equals S v (Result_zero\<lparr>InternalServiceError := Some y\<rparr>)"
    by (simp add: InternalServiceError n Result_Equals_def slot_Equals_def Result_zero_def)
  ultimately show ?thesis by simp
next
  case (EntityNotExistError x)
  from assms(2) have "nested_ok (EntityNotExistsError_ops S) (Some x)"
    by (simp add: Result_nested_ok_def EntityNotExistError Result_zero_def)
  then obtain w y where n: "ToWire_of (EntityNotExistsError_ops S) x = Inr w" "Type w = TStruct"
      "FromWire_of (EntityNotExistsError_ops S) w = (y, None)" "Equals_of (EntityNotExistsError_ops S) x y"
    by (rule nested_ok_SomeE)
  have "Result_ToWire S v = Inr (ValueStruct [Field 3 w])"
    by (simp add: EntityNotExistError n Result_ToWire_def Result_zero_def put_Field_def and_then_def)
  moreover have "Result_FromWire S Result_zero (ValueStruct [Field 3 w]) =
      (Result_zero\<lparr>EntityNotExistError := Some y\<rparr>, None)"
    by (simp add: n Result_FromWire_def Result_field_def struct_Read_def Result_count_def
        Result_zero_def)
  moreover have "Result_Equals S v (Result_zero\<lparr>EntityNotExistError := Some y\<rparr>)"
    by (simp add: EntityNotExistError n Result_Equals_def slot_Equals_def Result_zero_def)
  ultimately show ?thesis by simp
next
  case (ServiceBusyError x)
  from assms(2) have "nested_ok (ServiceBusyError_ops S) (Some x)"
    by (simp add: Result_nested_ok_def ServiceBusyError Result_zero_def)
  then obtain w y where n: "ToWire_of (ServiceBusyError_ops S) x = Inr w" "Type w = TStruct"
      "FromWire_of (ServiceBusyError_ops S) w = (y, None)" "Equals_of (ServiceBusyError_ops S) x y"
    by (rule nested_ok_SomeE)
  have "Result_ToWire S v = Inr (ValueStruct [Field 4 w])"
    by (simp add: ServiceBusyError n Result_ToWire_def Result_zero_def put_Field_def and_then_def)
  moreover have "Result_FromWire S Result_zero (ValueStruct [Field 4 w]) =
      (Result_zero\<lparr>ServiceBusyError := Some y\<rparr>, None)"
    by (simp add: n Result_FromWire_def Result_field_def struct_Read_def Result_count_def
        Result_zero_def)
  moreover have "Result_Equals S v (Result_zero\<lparr>ServiceBusyError := Some y\<rparr>)"
    by (simp add: ServiceBusyError n Result_Equals_def slot_Equals_def Result_zero_def)
  ultimately show ?thesis by simp
next
  case (ClientVersionNotSupportedError x)
  from assms(2) have "nested_ok (ClientVersionNotSupportedError_ops S) (Some x)"
    by (simp add: Result_nested_ok_def ClientVersionNotSupportedError Result_zero_def)
  then obtain w y where n: "ToWire_of (ClientVersionNotSupportedError_ops S) x = Inr w" "Type w = TStruct"
      "FromWire_of (ClientVersionNotSupportedError_ops S) w = (y, None)" "Equals_of (ClientVersionNotSupportedError_ops S) x y"
    by (rule nested_ok_SomeE)
  have "Result_ToWire S v = Inr (ValueStruct [Field 5 w])"
    by (simp add: ClientVersionNotSupportedError n Result_ToWire_def Result_zero_def put_Field_def and_then_def)
  moreover have "Result_FromWire S Result_zero (ValueStruct [Field 5 w]) =
      (Result_zero\<lparr>ClientVersionNotSupportedError := Some y\<rparr>, None)"
    by (simp add: n Result_FromWire_def Result_field_def struct_Read_def Result_count_def
        Result_zero_def)
  moreover have "Result_Equals S v (Result_zero\<lparr>ClientVersionNotSupportedError := Some y\<rparr>)"
    by (simp add: ClientVersionNotSupportedError n Result_Equals_def slot_Equals_def Result_zero_def)
  ultimately show ?thesis by simp
qed

lemma Args_roundtrip_conv:
  assumes "Args_ToWire rq a = Inr w" "snd (Args_FromWire rq Args_zero w) = None"
    "Args_Equals rq a (fst (Args_FromWire rq Args_zero w))"
  shows "nested_ok rq (ListRequest a)"
proof (cases "ListRequest a")
  case None
  then show ?thesis by (simp add: nested_ok_def)
next
  case (Some x)
  with assms(1) obtain wx where e: "ToWire_of rq x = Inr wx" and w: "w = ValueStruct [Field 1 wx]"
    by (auto simp: Args_ToWire_def put_Field_def and_then_def split: sum.splits)
  obtain y err where d: "FromWire_of rq wx = (y, err)" by (cases "FromWire_of rq wx")
  show ?thesis
  proof (cases "Type wx = TStruct")
    case True
    with assms(2,3) Some e w d show ?thesis
      by (cases err) (simp_all add: nested_ok_def Args_FromWire_def Args_field_def struct_Read_def
          Args_zero_def Args_Equals_def slot_Equals_def split: if_splits)
  next
    case False
    with assms(3) Some w show ?thesis
      by (simp add: Args_FromWire_def Args_field_def Args_zero_def Args_Equals_def
          slot_Equals_def)
  qed
qed

lemma Result_roundtrip_conv:
  assumes "Result_count v = 1" "Result_ToWire S v = Inr w"
    "snd (Result_FromWire S Result_zero w) = None"
    "Result_Equals S v (fst (Result_FromWire S Result_zero w))"
  shows "Result_nested_ok S v"
  using assms(1)
proof (cases rule: Result_count_one_cases)
  case (Success x)
  with assms(2) obtain wx where e: "ToWire_of (Response_ops S) x = Inr wx"
    and w: "w = ValueStruct [Field 0 wx]"
    by (auto simp: Result_ToWire_def Result_zero_def put_Field_def and_then_def Let_def
        split: sum.splits)
  obtain y err where d: "FromWire_of (Response_ops S) wx = (y, err)"
    by (cases "FromWire_of (Response_ops S) wx")
  have "nested_ok (Response_ops S) (Some x)"
  proof (cases "Type wx = TStruct")
    case True
    with assms(3,4) Success e w d show ?thesis
      by (cases err)
         (simp_all add: nested_ok_def Result_FromWire_def Result_field_def struct_Read_def
           Result_zero_def Result_count_def Result_Equals_def slot_Equals_def
           split: if_splits)
  next
    case False
    with assms(3) w show ?thesis
      by (simp add: Result_FromWire_def Result_field_def Result_zero_def Result_count_def
          arity_error_def)
  qed
  with Success show ?thesis
    by (simp add: Result_nested_ok_def Result_zero_def nested_ok_def)
next
  case (BadRequestError x)
  with assms(2) obtain wx where e: "ToWire_of (BadRequestError_ops S) x = Inr wx"
    and w: "w = ValueStruct [Field 1 wx]"
    by (auto simp: Result_ToWire_def Result_zero_def put_Field_def and_then_def Let_def
        split: sum.splits)
  obtain y err where d: "FromWire_of (BadRequestError_ops S) wx = (y, err)"
    by (cases "FromWire_of (BadRequestError_ops S) wx")
  have "nested_ok (BadRequestError_ops S) (Some x)"
  proof (cases "Type wx = TStruct")
    case True
    with assms(3,4) BadRequestError e w d show ?thesis
      by (cases err)
         (simp_all add: nested_ok_def Result_FromWire_def Result_field_def struct_Read_def
           Result_zero_def Result_count_def Result_Equals_def slot_Equals_def
           split: if_splits)
  next
    case False
    with assms(3) w show ?thesis
      by (simp add: Result_FromWire_def Result_field_def Result_zero_def Result_count_def
          arity_error_def)
  qed
  with BadRequestError show ?thesis
    by (simp add: Result_nested_ok_def Result_zero_def nested_ok_def)
next
  case (InternalServiceError x)
  with assms(2) obtain wx where e: "ToWire_of (InternalServiceError_ops S) x = Inr wx"
    and w: "w = ValueStruct [Field 2 wx]"
    by (auto simp: Result_ToWire_def Result_zero_def put_Field_def and_then_def Let_def
        split: sum.splits)
  obtain y err where d: "FromWire_of (InternalServiceError_ops S) wx = (y, err)"
    by (cases "FromWire_of (InternalServiceError_ops S) wx")
  have "nested_ok (InternalServiceError_ops S) (Some x)"
  proof (cases "Type wx = TStruct")
    case True
    with assms(3,4) InternalServiceError e w d show ?thesis
      by (cases err)
         (simp_all add: nested_ok_def Result_FromWire_def Result_field_def struct_Read_def
           Result_zero_def Result_count_def Result_Equals_def slot_Equals_def
           split: if_splits)
  next
    case False
    with assms(3) w show ?thesis
      by (simp add: Result_FromWire_def Result_field_def Result_zero_def Result_count_def
          arity_error_def)
  qed
  with InternalServiceError show ?thesis
    by (simp add: Result_nested_ok_def Result_zero_def nested_ok_def)
next
  case (EntityNotExistError x)
  with assms(2) obtain wx where e: "ToWire_of (EntityNotExistsError_ops S) x = Inr wx"
    and w: "w = ValueStruct [Field 3 wx]"
    by (auto simp: Result_ToWire_def Result_zero_def put_Field_def and_then_def Let_def
        split: sum.splits)
  obtain y err where d: "FromWire_of (EntityNotExistsError_ops S) wx = (y, err)"
    by (cases "FromWire_of (EntityNotExistsError_ops S) wx")
  have "nested_ok (EntityNotExistsError_ops S) (Some x)"
  proof (cases "Type wx = TStruct")
    case True
    with assms(3,4) EntityNotExistError e w d show ?thesis
      by (cases err)
         (simp_all add: nested_ok_def Result_FromWire_def Result_field_def struct_Read_def
           Result_zero_def Result_count_def Result_Equals_def slot_Equals_def
           split: if_splits)
  next
    case False
    with assms(3) w show ?thesis
      by (simp add: Result_FromWire_def Result_field_def Result_zero_def Result_count_def
          arity_error_def)
  qed
  with EntityNotExistError show ?thesis
    by (simp add: Result_nested_ok_def Result_zero_def nested_ok_def)
next
  case (ServiceBusyError x)
  with assms(2) obtain wx where e: "ToWire_of (ServiceBusyError_ops S) x = Inr wx"
    and w: "w = ValueStruct [Field 4 wx]"
    by (auto simp: Result_ToWire_def Result_zero_def put_Field_def and_then_def Let_def
        split: sum.splits)
  obtain y err where d: "FromWire_of (ServiceBusyError_ops S) wx = (y, err)"
    by (cases "FromWire_of (ServiceBusyError_ops S) wx")
  have "nested_ok (ServiceBusyError_ops S) (Some x)"
  proof (cases "Type wx = TStruct")
    case True
    with assms(3,4) ServiceBusyError e w d show ?thesis
      by (cases err)
         (simp_all add: nested_ok_def Result_FromWire_def Result_field_def struct_Read_def
           Result_zero_def Result_count_def Result_Equals_def slot_Equals_def
           split: if_splits)
  next
    case False
    with assms(3) w show ?thesis
      by (simp add: Result_FromWire_def Result_field_def Result_zero_def Result_count_def
          arity_error_def)
  qed
  with ServiceBusyError show ?thesis
    by (simp add: Result_nested_ok_def Result_zero_def nested_ok_def)
next
  case (ClientVersionNotSupportedError x)
  with assms(2) obtain wx where e: "ToWire_of (ClientVersionNotSupportedError_ops S) x = Inr wx"
    and w: "w = ValueStruct [Field 5 wx]"
    by (auto simp: Result_ToWire_def Result_zero_def put_Field_def and_then_def Let_def
        split: sum.splits)
  obtain y err where d: "FromWire_of (ClientVersionNotSupportedError_ops S) wx = (y, err)"
    by (cases "FromWire_of (ClientVersionNotSupportedError_ops S) wx")
  have "nested_ok (ClientVersionNotSupportedError_ops S) (Some x)"
  proof (cases "Type wx = TStruct")
    case True
    with assms(3,4) ClientVersionNotSupportedError e w d show ?thesis
      by (cases err)
         (simp_all add: nested_ok_def Result_FromWire_def Result_field_def struct_Read_def
           Result_zero_def Result_count_def Result_Equals_def slot_Equals_def
           split: if_splits)
  next
    case False
    with assms(3) w show ?thesis
      by (simp add: Result_FromWire_def Result_field_def Result_zero_def Result_count_def
          arity_error_def)
  qed
  with ClientVersionNotSupportedError show ?thesis
    by (simp add: Result_nested_ok_def Result_zero_def nested_ok_def)
qed

subsection \<open>Round trip\<close>

text \<open>
  Claim C1, as the code has it. An arguments struct round-trips exactly when its request,
  if present, is round-tripped by the codec of the request type: that codec encodes it
  without error to a wire struct, decodes that struct without error, and the decoded
  value is \<^verbatim>\<open>Equals\<close> to the request. A result struct with exactly one populated slot
  round-trips exactly when the codec of the populated payload round-trips it in the same
  sense. To round-trip is: \<^verbatim>\<open>ToWire\<close> succeeds, \<^verbatim>\<open>FromWire\<close> of its wire value into
  a fresh struct succeeds, and the decoded struct is \<^verbatim>\<open>Equals\<close> to the original.
\<close>

theorem roundtrip_Args_Result:
  "nested_ok rq (ListRequest a) =
      (\<exists>w. Args_ToWire rq a = Inr w \<and> snd (Args_FromWire rq Args_zero w) = None \<and>
         Args_Equals rq a (fst (Args_FromWire rq Args_zero w))) \<and>
   (Result_count v = 1 \<longrightarrow>
      Result_nested_ok S v =
        (\<exists>w. Result_ToWire S v = Inr w \<and> snd (Result_FromWire S Result_zero w) = None \<and>
           Result_Equals S v (fst (Result_FromWire S Result_zero w))))"
  using Args_roundtrip [of rq a] Result_roundtrip [of v S]
    Args_roundtrip_conv [of rq a] Result_roundtrip_conv [of v S]
  by blast

theorem roundtrip_Args_Result_witness:
  "nested_ok message_ops (ListRequest \<lparr>ListRequest = Some [1, 2]\<rparr>) \<and>
   (\<exists>w. Args_ToWire message_ops \<lparr>ListRequest = Some [1, 2]\<rparr> = Inr w \<and>
      snd (Args_FromWire message_ops Args_zero w) = None \<and>
      Args_Equals message_ops \<lparr>ListRequest = Some [1, 2]\<rparr>
        (fst (Args_FromWire message_ops Args_zero w))) \<and>
   Result_count (Result_zero\<lparr>ServiceBusyError := Some [3 :: 8 word]\<rparr>
      :: (message, message, message, message, message, message) Result) = 1 \<and>
   Result_nested_ok sample_shared (Result_zero\<lparr>ServiceBusyError := Some [3]\<rparr>) \<and>
   (\<exists>w. Result_ToWire sample_shared (Result_zero\<lparr>ServiceBusyError := Some [3]\<rparr>) = Inr w \<and>
      snd (Result_FromWire sample_shared Result_zero w) = None \<and>
      Result_Equals sample_shared (Result_zero\<lparr>ServiceBusyError := Some [3]\<rparr>)
        (fst (Result_FromWire sample_shared Result_zero w)))"
proof -
  have a: "nested_ok message_ops (ListRequest \<lparr>ListRequest = Some [1, 2]\<rparr>)"
    by (simp add: nested_ok_def message_ops_def message_ToWire_def message_FromWire_def)
  have c: "Result_count (Result_zero\<lparr>ServiceBusyError := Some [3 :: 8 word]\<rparr>
      :: (message, message, message, message, message, message) Result) = 1"
    by (simp add: Result_count_def Result_zero_def)
  have n: "Result_nested_ok sample_shared (Result_zero\<lparr>ServiceBusyError := Some [3]\<rparr>)"
    by (simp add: Result_nested_ok_def Result_zero_def nested_ok_def sample_shared_def
        message_ops_def message_ToWire_def message_FromWire_def)
  show ?thesis
    using a c n
      roundtrip_Args_Result [of message_ops "\<lparr>ListRequest = Some [1, 2]\<rparr>"
        "Result_zero\<lparr>ServiceBusyError := Some [3]\<rparr>" sample_shared]
    by blast
qed

text \<open>
  As claim C1 is written it fails: the result struct below has exactly one populated
  slot, the arguments struct has its request, and \<^verbatim>\<open>ToWire\<close> of each returns the error
  of the nested encoder, so there is no wire value to decode.
\<close>

theorem roundtrip_Args_Result_counterexample:
  "Result_count (Result_zero\<lparr>Success := Some ([] :: 8 word list)\<rparr>
     :: (message, message, message, message, message, message) Result) = 1 \<and>
   Result_ToWire strict_shared (Result_zero\<lparr>Success := Some []\<rparr>) =
     Inl (ErrorString ''empty message'') \<and>
   Args_ToWire strict_ops \<lparr>ListRequest = Some []\<rparr> = Inl (ErrorString ''empty message'')"
  by (simp add: Result_count_def Result_zero_def Result_ToWire_def Args_ToWire_def
      put_Field_def and_then_def sample_defs)

subsection \<open>Decoding a result: the arity check\<close>

lemma snd_Result_field: "snd (Result_field S v f) = read_error S f"
  by (simp add: Result_field_def read_error_def type_matching_def struct_Read_def
      split: prod.splits)

lemma populated_Result_field:
  "n \<in> {0, 1, 2, 3, 4, 5} \<Longrightarrow>
   populated (fst (Result_field S v f)) n = (populated v n \<or> type_matching n f)"
  by (auto simp: Result_field_def populated_def type_matching_def split: prod.splits)

lemma range_Fields_error:
  "first_read_error S flds = Some err \<Longrightarrow>
   snd (range_Fields (Result_field S) v flds) = Some err"
proof (induction flds arbitrary: v)
  case Nil
  then show ?case by simp
next
  case (Cons f flds)
  obtain v' e where r: "Result_field S v f = (v', e)" by (cases "Result_field S v f")
  with snd_Result_field [of S v f] have e: "read_error S f = e" by simp
  show ?case using Cons r e by (cases e) auto
qed

lemma range_Fields_ok:
  "first_read_error S flds = None \<Longrightarrow> n \<in> {0, 1, 2, 3, 4, 5} \<Longrightarrow>
   snd (range_Fields (Result_field S) v flds) = None \<and>
   populated (fst (range_Fields (Result_field S) v flds)) n = (populated v n \<or> has_slot flds n)"
proof (induction flds arbitrary: v)
  case Nil
  then show ?case by (simp add: has_slot_def)
next
  case (Cons f flds)
  obtain v' e where r: "Result_field S v f = (v', e)" by (cases "Result_field S v f")
  with snd_Result_field [of S v f] have e: "read_error S f = e" by simp
  from Cons.prems(1) e have e0: "e = None" and rest: "first_read_error S flds = None"
    by (auto split: option.splits)
  from populated_Result_field [OF Cons.prems(2), of S v f] r
  have p: "populated v' n = (populated v n \<or> type_matching n f)" by simp
  show ?case using Cons.IH [OF rest Cons.prems(2), of v'] r e0 p
    by (auto simp: has_slot_def)
qed

lemma Result_count_populated:
  "Result_count v = length (filter (populated v) [0, 1, 2, 3, 4, 5])"
  by (simp add: Result_count_def populated_def)

lemma populated_zero: "populated Result_zero n = False"
  by (simp add: populated_def Result_zero_def)

lemma count_decoded:
  assumes "first_read_error S flds = None"
  shows "Result_count (fst (range_Fields (Result_field S) Result_zero flds)) = wire_count flds"
  unfolding Result_count_populated wire_count_def
  using range_Fields_ok [OF assms, of _ Result_zero]
  by (simp add: populated_zero)

lemma FromWire_error:
  assumes "first_read_error S (GetStruct w) = Some err"
  shows "snd (Result_FromWire S v w) = Some err"
  using range_Fields_error [OF assms, of v]
  by (cases "range_Fields (Result_field S) v (GetStruct w)")
     (simp add: Result_FromWire_def)

lemma FromWire_ok:
  assumes "first_read_error S (GetStruct w) = None"
  shows "fst (Result_FromWire S Result_zero w) =
      fst (range_Fields (Result_field S) Result_zero (GetStruct w))"
    and "snd (Result_FromWire S Result_zero w) =
      (if wire_count (GetStruct w) \<noteq> 1 then Some (arity_error (wire_count (GetStruct w)))
       else None)"
  using range_Fields_ok [OF assms, of 0 Result_zero] count_decoded [OF assms]
  by (cases "range_Fields (Result_field S) Result_zero (GetStruct w)";
      simp add: Result_FromWire_def Let_def)+

text \<open>
  Claim C2, as the code has it. Decoding a wire value into a fresh result struct returns
  the error of the first recognized field that its nested decoder rejects, when there is
  one. When there is none, the populated slots are the declared IDs that the wire has a
  type-matching field for, decoding fails exactly when their number is not 1, and the
  error then names the result struct of the method and carries that number; with the
  success field and one exception field on the wire the error says 2.
\<close>

theorem Result_FromWire_arity:
  "(first_read_error S (GetStruct w) = Some err \<longrightarrow> snd (Result_FromWire S v w) = Some err) \<and>
   (first_read_error S (GetStruct w) = None \<longrightarrow>
      Result_count (fst (Result_FromWire S Result_zero w)) = wire_count (GetStruct w) \<and>
      (snd (Result_FromWire S Result_zero w) \<noteq> None) = (wire_count (GetStruct w) \<noteq> 1) \<and>
      (wire_count (GetStruct w) \<noteq> 1 \<longrightarrow>
         snd (Result_FromWire S Result_zero w) =
           Some (ErrorString (''WorkflowService_'' @ MethodName @
             ''_Result should have exactly one field: got '' @
             decimal (wire_count (GetStruct w)) @ '' fields''))) \<and>
      (filter (has_slot (GetStruct w)) [1, 2, 3, 4, 5] = [k] \<and> has_slot (GetStruct w) 0 \<longrightarrow>
         snd (Result_FromWire S Result_zero w) =
           Some (ErrorString
             ''WorkflowService_ListClosedWorkflowExecutions_Result should have exactly one field: got 2 fields'')))"
proof (intro conjI impI)
  assume "first_read_error S (GetStruct w) = Some err"
  then show "snd (Result_FromWire S v w) = Some err" by (rule FromWire_error)
next
  assume ok: "first_read_error S (GetStruct w) = None"
  show "Result_count (fst (Result_FromWire S Result_zero w)) = wire_count (GetStruct w)"
    using FromWire_ok(1) [OF ok] count_decoded [OF ok] by simp
  show "(snd (Result_FromWire S Result_zero w) \<noteq> None) = (wire_count (GetStruct w) \<noteq> 1)"
    using FromWire_ok(2) [OF ok] by simp
  show "snd (Result_FromWire S Result_zero w) =
           Some (ErrorString (''WorkflowService_'' @ MethodName @
             ''_Result should have exactly one field: got '' @
             decimal (wire_count (GetStruct w)) @ '' fields''))"
    if "wire_count (GetStruct w) \<noteq> 1"
    using FromWire_ok(2) [OF ok] that arity_error_text [of "wire_count (GetStruct w)"] by simp
  show "snd (Result_FromWire S Result_zero w) =
           Some (ErrorString
             ''WorkflowService_ListClosedWorkflowExecutions_Result should have exactly one field: got 2 fields'')"
    if "filter (has_slot (GetStruct w)) [1, 2, 3, 4, 5] = [k] \<and> has_slot (GetStruct w) 0"
  proof -
    from that have "wire_count (GetStruct w) = 2" by (simp add: wire_count_def)
    then show ?thesis
      using FromWire_ok(2) [OF ok] by (simp add: arity_error_def decimal_small)
  qed
qed

theorem Result_FromWire_arity_witness:
  "first_read_error sample_shared (GetStruct (ValueStruct [Field 1 (ValueStruct [])])) =
     Some (ErrorString ''field Message is required'') \<and>
   snd (Result_FromWire sample_shared Result_zero (ValueStruct [Field 1 (ValueStruct [])])) =
     Some (ErrorString ''field Message is required'') \<and>
   first_read_error sample_shared
     (GetStruct (ValueStruct
        [Field 0 (ValueStruct [Field 1 (ValueBinary [7])]),
         Field 3 (ValueStruct [Field 1 (ValueBinary [])])])) = None \<and>
   wire_count
     (GetStruct (ValueStruct
        [Field 0 (ValueStruct [Field 1 (ValueBinary [7])]),
         Field 3 (ValueStruct [Field 1 (ValueBinary [])])])) = 2 \<and>
   filter
     (has_slot (GetStruct (ValueStruct
        [Field 0 (ValueStruct [Field 1 (ValueBinary [7])]),
         Field 3 (ValueStruct [Field 1 (ValueBinary [])])]))) [1, 2, 3, 4, 5] = [3] \<and>
   snd (Result_FromWire sample_shared Result_zero
     (ValueStruct
        [Field 0 (ValueStruct [Field 1 (ValueBinary [7])]),
         Field 3 (ValueStruct [Field 1 (ValueBinary [])])])) =
     Some (ErrorString
       ''WorkflowService_ListClosedWorkflowExecutions_Result should have exactly one field: got 2 fields'')"
proof -
  let ?w1 = "ValueStruct [Field 1 (ValueStruct [])]"
  let ?w2 = "ValueStruct
        [Field 0 (ValueStruct [Field 1 (ValueBinary [7])]),
         Field 3 (ValueStruct [Field 1 (ValueBinary [])])]"
  have e1: "first_read_error sample_shared (GetStruct ?w1) =
      Some (ErrorString ''field Message is required'')"
    by (simp add: read_error_def type_matching_def sample_defs)
  have e2: "first_read_error sample_shared (GetStruct ?w2) = None"
    by (simp add: read_error_def type_matching_def sample_defs)
  have c2: "wire_count (GetStruct ?w2) = 2"
    by (simp add: wire_count_def has_slot_def type_matching_def)
  have f2: "filter (has_slot (GetStruct ?w2)) [1, 2, 3, 4, 5] = [3]"
    by (simp add: has_slot_def type_matching_def)
  have h2: "has_slot (GetStruct ?w2) 0"
    by (simp add: has_slot_def type_matching_def)
  show ?thesis
    using e1 e2 c2 f2 h2
      Result_FromWire_arity [where S = sample_shared and w = ?w1 and v = Result_zero
        and err = "ErrorString ''field Message is required''"]
      Result_FromWire_arity [where S = sample_shared and w = ?w2 and k = 3]
    by blast
qed

text \<open>
  As claim C2 is written it fails: the wire struct below has exactly one recognized field,
  the decoded struct has exactly one populated slot, and decoding fails, with the error of
  the nested decoder and not with a count.
\<close>

theorem Result_FromWire_arity_counterexample:
  "snd (Result_FromWire sample_shared Result_zero (ValueStruct [Field 1 (ValueStruct [])])) =
     Some (ErrorString ''field Message is required'') \<and>
   Result_count
     (fst (Result_FromWire sample_shared Result_zero (ValueStruct [Field 1 (ValueStruct [])]))) =
     1 \<and>
   wire_count [Field 1 (ValueStruct [])] = 1"
  by (simp add: Result_FromWire_def Result_field_def struct_Read_def Result_count_def
      Result_zero_def sample_defs wire_count_def has_slot_def type_matching_def)

subsection \<open>Encoding a result: the arity check\<close>

lemma put_Field_alt:
  "put_Field ops n slot flds =
     (case encode_error ops slot of
        Some err \<Rightarrow> Inl err
      | None \<Rightarrow> Inr (flds @ enc_fields ops n slot))"
  by (simp add: put_Field_def encode_error_def enc_fields_def split: option.splits sum.splits)

lemma length_enc_fields:
  "encode_error ops slot = None \<Longrightarrow>
   length (enc_fields ops n slot) = (if slot \<noteq> None then 1 else 0)"
  by (simp add: encode_error_def enc_fields_def split: option.splits sum.splits)

lemma ToWire_encode_error:
  assumes "first_encode_error S v = Some err"
  shows "Result_ToWire S v = Inl err"
  using assms
  unfolding first_encode_error_def Result_ToWire_def and_then_def put_Field_alt
  by (cases "encode_error (Response_ops S) (Success v)";
      cases "encode_error (BadRequestError_ops S) (BadRequestError v)";
      cases "encode_error (InternalServiceError_ops S) (InternalServiceError v)";
      cases "encode_error (EntityNotExistsError_ops S) (EntityNotExistError v)";
      cases "encode_error (ServiceBusyError_ops S) (ServiceBusyError v)";
      cases "encode_error (ClientVersionNotSupportedError_ops S)
               (ClientVersionNotSupportedError v)";
      simp)

lemma ToWire_encode_ok:
  assumes "first_encode_error S v = None"
  shows "Result_ToWire S v =
    (if Result_count v \<noteq> 1 then Inl (arity_error (Result_count v))
     else Inr (ValueStruct
       (enc_fields (Response_ops S) 0 (Success v) @
        enc_fields (BadRequestError_ops S) 1 (BadRequestError v) @
        enc_fields (InternalServiceError_ops S) 2 (InternalServiceError v) @
        enc_fields (EntityNotExistsError_ops S) 3 (EntityNotExistError v) @
        enc_fields (ServiceBusyError_ops S) 4 (ServiceBusyError v) @
        enc_fields (ClientVersionNotSupportedError_ops S) 5
          (ClientVersionNotSupportedError v))))"
proof -
  from assms have e:
    "encode_error (Response_ops S) (Success v) = None"
    "encode_error (BadRequestError_ops S) (BadRequestError v) = None"
    "encode_error (InternalServiceError_ops S) (InternalServiceError v) = None"
    "encode_error (EntityNotExistsError_ops S) (EntityNotExistError v) = None"
    "encode_error (ServiceBusyError_ops S) (ServiceBusyError v) = None"
    "encode_error (ClientVersionNotSupportedError_ops S) (ClientVersionNotSupportedError v) = None"
    unfolding first_encode_error_def
    by (cases "encode_error (Response_ops S) (Success v)";
      cases "encode_error (BadRequestError_ops S) (BadRequestError v)";
      cases "encode_error (InternalServiceError_ops S) (InternalServiceError v)";
      cases "encode_error (EntityNotExistsError_ops S) (EntityNotExistError v)";
      cases "encode_error (ServiceBusyError_ops S) (ServiceBusyError v)";
      cases "encode_error (ClientVersionNotSupportedError_ops S)
               (ClientVersionNotSupportedError v)";
      simp)+
  have n: "length
       (enc_fields (Response_ops S) 0 (Success v) @
        enc_fields (BadRequestError_ops S) 1 (BadRequestError v) @
        enc_fields (InternalServiceError_ops S) 2 (InternalServiceError v) @
        enc_fields (EntityNotExistsError_ops S) 3 (EntityNotExistError v) @
        enc_fields (ServiceBusyError_ops S) 4 (ServiceBusyError v) @
        enc_fields (ClientVersionNotSupportedError_ops S) 5 (ClientVersionNotSupportedError v))
      = Result_count v"
    unfolding length_append length_enc_fields [OF e(1)] length_enc_fields [OF e(2)]
      length_enc_fields [OF e(3)] length_enc_fields [OF e(4)] length_enc_fields [OF e(5)]
      length_enc_fields [OF e(6)] Result_count_def
    by (simp only: add.assoc)
  show ?thesis
    unfolding Result_ToWire_def and_then_def put_Field_alt e Let_def
    using n by (simp del: length_append)
qed

text \<open>
  Claim C3. When the encoder of a populated slot fails, \<^verbatim>\<open>ToWire\<close> returns the first such
  error, in the order of the slots. When none fails, \<^verbatim>\<open>ToWire\<close> fails exactly when the
  number of populated slots is 0 or at least 2, the error then names the result struct of
  the method and carries that number, and a result with exactly one populated slot encodes
  to a wire struct.
\<close>

theorem Result_ToWire_arity:
  "(first_encode_error S v = Some err \<longrightarrow> Result_ToWire S v = Inl err) \<and>
   (first_encode_error S v = None \<longrightarrow>
      isl (Result_ToWire S v) = (Result_count v = 0 \<or> 2 \<le> Result_count v) \<and>
      (Result_count v \<noteq> 1 \<longrightarrow>
         Result_ToWire S v =
           Inl (ErrorString (''WorkflowService_'' @ MethodName @
             ''_Result should have exactly one field: got '' @
             decimal (Result_count v) @ '' fields''))) \<and>
      (Result_count v = 1 \<longrightarrow> (\<exists>flds. Result_ToWire S v = Inr (ValueStruct flds))))"
proof (intro conjI impI)
  assume "first_encode_error S v = Some err"
  then show "Result_ToWire S v = Inl err" by (rule ToWire_encode_error)
next
  assume ok: "first_encode_error S v = None"
  show "isl (Result_ToWire S v) = (Result_count v = 0 \<or> 2 \<le> Result_count v)"
    unfolding ToWire_encode_ok [OF ok] by auto
  show "Result_ToWire S v =
           Inl (ErrorString (''WorkflowService_'' @ MethodName @
             ''_Result should have exactly one field: got '' @
             decimal (Result_count v) @ '' fields''))" if "Result_count v \<noteq> 1"
    unfolding ToWire_encode_ok [OF ok] using that arity_error_text [of "Result_count v"] by simp
  show "\<exists>flds. Result_ToWire S v = Inr (ValueStruct flds)" if "Result_count v = 1"
    unfolding ToWire_encode_ok [OF ok] using that by simp
qed

theorem Result_ToWire_arity_witness:
  "first_encode_error strict_shared
     (Result_zero\<lparr>Success := Some [], BadRequestError := Some [1]\<rparr>) =
     Some (ErrorString ''empty message'') \<and>
   Result_ToWire strict_shared (Result_zero\<lparr>Success := Some [], BadRequestError := Some [1]\<rparr>) =
     Inl (ErrorString ''empty message'') \<and>
   first_encode_error sample_shared
     (Result_zero\<lparr>Success := Some [], BadRequestError := Some [1]\<rparr>) = None \<and>
   Result_count (Result_zero\<lparr>Success := Some [], BadRequestError := Some [1 :: 8 word]\<rparr>
     :: (message, message, message, message, message, message) Result) = 2 \<and>
   Result_ToWire sample_shared (Result_zero\<lparr>Success := Some [], BadRequestError := Some [1]\<rparr>) =
     Inl (ErrorString
       ''WorkflowService_ListClosedWorkflowExecutions_Result should have exactly one field: got 2 fields'') \<and>
   first_encode_error sample_shared (Result_zero\<lparr>Success := Some [7]\<rparr>) = None \<and>
   Result_count (Result_zero\<lparr>Success := Some [7 :: 8 word]\<rparr>
     :: (message, message, message, message, message, message) Result) = 1 \<and>
   (\<exists>flds. Result_ToWire sample_shared (Result_zero\<lparr>Success := Some [7]\<rparr>) =
      Inr (ValueStruct flds))"
proof -
  let ?v2 = "Result_zero\<lparr>Success := Some [], BadRequestError := Some [1 :: 8 word]\<rparr>
     :: (message, message, message, message, message, message) Result"
  let ?v1 = "Result_zero\<lparr>Success := Some [7 :: 8 word]\<rparr>
     :: (message, message, message, message, message, message) Result"
  have a: "first_encode_error strict_shared ?v2 = Some (ErrorString ''empty message'')"
    by (simp add: first_encode_error_def encode_error_def Result_zero_def sample_defs)
  have b: "first_encode_error sample_shared ?v2 = None"
    by (simp add: first_encode_error_def encode_error_def Result_zero_def sample_defs)
  have c: "Result_count ?v2 = 2"
    by (simp add: Result_count_def Result_zero_def)
  have d: "first_encode_error sample_shared ?v1 = None"
    by (simp add: first_encode_error_def encode_error_def Result_zero_def sample_defs)
  have e: "Result_count ?v1 = 1"
    by (simp add: Result_count_def Result_zero_def)
  have t: "''WorkflowService_'' @ MethodName @
      ''_Result should have exactly one field: got '' @ decimal 2 @ '' fields'' =
      ''WorkflowService_ListClosedWorkflowExecutions_Result should have exactly one field: got 2 fields''"
    by (simp add: MethodName_def decimal_small)
  show ?thesis
    using a b c d e t
      Result_ToWire_arity [where S = strict_shared and v = ?v2
        and err = "ErrorString ''empty message''"]
      Result_ToWire_arity [where S = sample_shared and v = ?v2]
      Result_ToWire_arity [where S = sample_shared and v = ?v1]
    by (simp del: One_nat_def)
qed

subsection \<open>The helper\<close>

text \<open>
  Claim C4. \<^verbatim>\<open>UnwrapResponse\<close> returns what the specification describes: the first
  populated slot in the order BadRequestError, InternalServiceError, EntityNotExistError,
  ServiceBusyError, ClientVersionNotSupportedError, Success, an exception slot as the
  error and the success slot as the payload, and the error "expected a non-void result"
  when no slot is populated.
\<close>

theorem UnwrapResponse_priority: "UnwrapResponse r = spec_UnwrapResponse r"
  unfolding UnwrapResponse_def spec_UnwrapResponse_def exception_slots_def
  by (cases "BadRequestError r"; cases "InternalServiceError r"; cases "EntityNotExistError r";
      cases "ServiceBusyError r"; cases "ClientVersionNotSupportedError r"; cases "Success r";
      simp)

text \<open>
  Claim C5. For each of the five exception types and every value of it that is not nil,
  \<^verbatim>\<open>WrapResponse\<close> with any success value returns no error and a result in which the
  slot of that exception holds the value and every other slot, \<^verbatim>\<open>Success\<close> included, is
  nil; \<^verbatim>\<open>UnwrapResponse\<close> of that result returns a nil success and the same error.
\<close>

theorem WrapResponse_exception:
  "WrapResponse success (Some (Ptr_BadRequestError (Some e1))) =
     (Some \<lparr>Success = None, BadRequestError = Some e1, InternalServiceError = None,
        EntityNotExistError = None, ServiceBusyError = None,
        ClientVersionNotSupportedError = None\<rparr>, None) \<and>
   UnwrapResponse \<lparr>Success = None, BadRequestError = Some e1, InternalServiceError = None,
        EntityNotExistError = None, ServiceBusyError = None,
        ClientVersionNotSupportedError = None\<rparr> =
     (None, Some (Ptr_BadRequestError (Some e1))) \<and>
   WrapResponse success (Some (Ptr_InternalServiceError (Some e2))) =
     (Some \<lparr>Success = None, BadRequestError = None, InternalServiceError = Some e2,
        EntityNotExistError = None, ServiceBusyError = None,
        ClientVersionNotSupportedError = None\<rparr>, None) \<and>
   UnwrapResponse \<lparr>Success = None, BadRequestError = None, InternalServiceError = Some e2,
        EntityNotExistError = None, ServiceBusyError = None,
        ClientVersionNotSupportedError = None\<rparr> =
     (None, Some (Ptr_InternalServiceError (Some e2))) \<and>
   WrapResponse success (Some (Ptr_EntityNotExistsError (Some e3))) =
     (Some \<lparr>Success = None, BadRequestError = None, InternalServiceError = None,
        EntityNotExistError = Some e3, ServiceBusyError = None,
        ClientVersionNotSupportedError = None\<rparr>, None) \<and>
   UnwrapResponse \<lparr>Success = None, BadRequestError = None, InternalServiceError = None,
        EntityNotExistError = Some e3, ServiceBusyError = None,
        ClientVersionNotSupportedError = None\<rparr> =
     (None, Some (Ptr_EntityNotExistsError (Some e3))) \<and>
   WrapResponse success (Some (Ptr_ServiceBusyError (Some e4))) =
     (Some \<lparr>Success = None, BadRequestError = None, InternalServiceError = None,
        EntityNotExistError = None, ServiceBusyError = Some e4,
        ClientVersionNotSupportedError = None\<rparr>, None) \<and>
   UnwrapResponse \<lparr>Success = None, BadRequestError = None, InternalServiceError = None,
        EntityNotExistError = None, ServiceBusyError = Some e4,
        ClientVersionNotSupportedError = None\<rparr> =
     (None, Some (Ptr_ServiceBusyError (Some e4))) \<and>
   WrapResponse success (Some (Ptr_ClientVersionNotSupportedError (Some e5))) =
     (Some \<lparr>Success = None, BadRequestError = None, InternalServiceError = None,
        EntityNotExistError = None, ServiceBusyError = None,
        ClientVersionNotSupportedError = Some e5\<rparr>, None) \<and>
   UnwrapResponse \<lparr>Success = None, BadRequestError = None, InternalServiceError = None,
        EntityNotExistError = None, ServiceBusyError = None,
        ClientVersionNotSupportedError = Some e5\<rparr> =
     (None, Some (Ptr_ClientVersionNotSupportedError (Some e5)))"
  by (simp add: WrapResponse_def UnwrapResponse_def Result_zero_def)

text \<open>
  Claim C6. For an error that is not nil and whose dynamic type is none of the five
  exception types, \<^verbatim>\<open>WrapResponse\<close> returns a nil result and the error itself. A result
  is built for exactly the errors that \<^verbatim>\<open>IsException\<close> accepts, the typed nils apart.
\<close>

theorem WrapResponse_unclassified:
  "(\<not> IsException (Some err) \<longrightarrow> WrapResponse success (Some err) = (None, Some err)) \<and>
   (fst (WrapResponse success (Some err)) \<noteq> None) = (IsException (Some err) \<and> \<not> typed_nil err)"
  by (cases err) (simp_all add: IsException_def WrapResponse_def typed_nil_def)

theorem WrapResponse_unclassified_witness:
  "\<not> IsException (Some (OtherError () :: sample_error)) \<and>
   WrapResponse (Some [7 :: 8 word]) (Some (OtherError () :: sample_error)) =
     (None, Some (OtherError ())) \<and>
   \<not> IsException (Some (ErrorString ''timeout'' :: sample_error)) \<and>
   WrapResponse (None :: message option) (Some (ErrorString ''timeout'' :: sample_error)) =
     (None, Some (ErrorString ''timeout''))"
proof -
  have a: "\<not> IsException (Some (OtherError () :: sample_error))"
    by (simp add: IsException_def)
  have b: "\<not> IsException (Some (ErrorString ''timeout'' :: sample_error))"
    by (simp add: IsException_def)
  show ?thesis
    using a b
      WrapResponse_unclassified [where err = "OtherError () :: sample_error"
        and success = "Some [7 :: 8 word]"]
      WrapResponse_unclassified [where err = "ErrorString ''timeout'' :: sample_error"
        and success = "None :: message option"]
    by blast
qed

text \<open>
  Claim C9. For a typed nil of each of the five exception types, \<^verbatim>\<open>WrapResponse\<close>
  returns a nil result and the error "WrapResponse received non-nil error type with nil
  value for" followed by the name of the slot in the result struct.
\<close>

theorem WrapResponse_typed_nil:
  "WrapResponse success (Some (Ptr_BadRequestError None)) =
     (None, Some (ErrorString
       ''WrapResponse received non-nil error type with nil value for WorkflowService_ListClosedWorkflowExecutions_Result.BadRequestError'')) \<and>
   WrapResponse success (Some (Ptr_InternalServiceError None)) =
     (None, Some (ErrorString
       ''WrapResponse received non-nil error type with nil value for WorkflowService_ListClosedWorkflowExecutions_Result.InternalServiceError'')) \<and>
   WrapResponse success (Some (Ptr_EntityNotExistsError None)) =
     (None, Some (ErrorString
       ''WrapResponse received non-nil error type with nil value for WorkflowService_ListClosedWorkflowExecutions_Result.EntityNotExistError'')) \<and>
   WrapResponse success (Some (Ptr_ServiceBusyError None)) =
     (None, Some (ErrorString
       ''WrapResponse received non-nil error type with nil value for WorkflowService_ListClosedWorkflowExecutions_Result.ServiceBusyError'')) \<and>
   WrapResponse success (Some (Ptr_ClientVersionNotSupportedError None)) =
     (None, Some (ErrorString
       ''WrapResponse received non-nil error type with nil value for WorkflowService_ListClosedWorkflowExecutions_Result.ClientVersionNotSupportedError''))"
  by (simp add: WrapResponse_def nil_value_error_def)

subsection \<open>Lenient decoding\<close>

lemma range_Fields_filter:
  assumes "\<And>v f. \<not> P f \<Longrightarrow> body v f = (v, None)"
  shows "range_Fields body v (filter P flds) = range_Fields body v flds"
proof (induction flds arbitrary: v)
  case Nil
  then show ?case by simp
next
  case (Cons f flds)
  then show ?case by (cases "P f") (simp_all add: assms split: prod.splits option.splits)
qed

lemma Args_field_skip: "\<not> Args_recognized f \<Longrightarrow> Args_field rq a f = (a, None)"
  by (auto simp: Args_recognized_def type_matching_def Args_field_def)

lemma Result_field_skip: "\<not> Result_recognized f \<Longrightarrow> Result_field S v f = (v, None)"
  by (simp add: Result_recognized_def type_matching_def Result_field_def)

lemma Args_FromWire_filter:
  "Args_FromWire rq a (ValueStruct (filter Args_recognized flds)) =
   Args_FromWire rq a (ValueStruct flds)"
  by (simp add: Args_FromWire_def range_Fields_filter [where P = Args_recognized]
      Args_field_skip)

lemma Result_FromWire_filter:
  "Result_FromWire S v (ValueStruct (filter Result_recognized flds)) =
   Result_FromWire S v (ValueStruct flds)"
  by (simp add: Result_FromWire_def range_Fields_filter [where P = Result_recognized]
      Result_field_skip)

text \<open>
  Claim C7. \<^verbatim>\<open>FromWire\<close> of the arguments struct and of the result struct gives the same
  struct and the same error on a wire struct as on the wire struct without the fields
  that are not recognized, those with an undeclared ID and those with a declared ID and a
  value that is not a struct. Such a field leaves the receiver as it is and raises no
  error, so a wire struct with one declared field and one such field decodes as the wire
  struct with the declared field alone does.
\<close>

theorem FromWire_lenient:
  "Args_FromWire rq a (ValueStruct flds) =
     Args_FromWire rq a (ValueStruct (filter Args_recognized flds)) \<and>
   Result_FromWire S v (ValueStruct flds) =
     Result_FromWire S v (ValueStruct (filter Result_recognized flds)) \<and>
   (ID u \<noteq> 1 \<or> Type (Value u) \<noteq> TStruct \<longrightarrow>
      Args_field rq a u = (a, None) \<and>
      Args_FromWire rq a (ValueStruct [f, u]) = Args_FromWire rq a (ValueStruct [f]) \<and>
      Args_FromWire rq a (ValueStruct [u, f]) = Args_FromWire rq a (ValueStruct [f])) \<and>
   (ID u \<notin> {0, 1, 2, 3, 4, 5} \<or> Type (Value u) \<noteq> TStruct \<longrightarrow>
      Result_field S v u = (v, None) \<and>
      Result_FromWire S v (ValueStruct [g, u]) = Result_FromWire S v (ValueStruct [g]) \<and>
      Result_FromWire S v (ValueStruct [u, g]) = Result_FromWire S v (ValueStruct [g]))"
proof (intro conjI impI)
  show "Args_FromWire rq a (ValueStruct flds) =
     Args_FromWire rq a (ValueStruct (filter Args_recognized flds))"
    by (simp add: Args_FromWire_filter)
  show "Result_FromWire S v (ValueStruct flds) =
     Result_FromWire S v (ValueStruct (filter Result_recognized flds))"
    by (simp add: Result_FromWire_filter)
next
  assume "ID u \<noteq> 1 \<or> Type (Value u) \<noteq> TStruct"
  then have u: "Args_field rq b u = (b, None)" for b
    by (auto simp: Args_field_def)
  show "Args_field rq a u = (a, None)" by (rule u)
  show "Args_FromWire rq a (ValueStruct [f, u]) = Args_FromWire rq a (ValueStruct [f])"
    by (simp add: Args_FromWire_def u split: prod.splits option.splits)
  show "Args_FromWire rq a (ValueStruct [u, f]) = Args_FromWire rq a (ValueStruct [f])"
    by (simp add: Args_FromWire_def u)
next
  assume "ID u \<notin> {0, 1, 2, 3, 4, 5} \<or> Type (Value u) \<noteq> TStruct"
  then have u: "Result_field S b u = (b, None)" for b
    by (auto simp: Result_field_def)
  show "Result_field S v u = (v, None)" by (rule u)
  show "Result_FromWire S v (ValueStruct [g, u]) = Result_FromWire S v (ValueStruct [g])"
    by (simp add: Result_FromWire_def u split: prod.splits option.splits)
  show "Result_FromWire S v (ValueStruct [u, g]) = Result_FromWire S v (ValueStruct [g])"
    by (simp add: Result_FromWire_def u)
qed

theorem FromWire_lenient_witness:
  "ID (Field 9 (ValueBool True)) \<noteq> 1 \<and>
   Args_FromWire message_ops Args_zero
     (ValueStruct [Field 1 (ValueStruct [Field 1 (ValueBinary [7])]), Field 9 (ValueBool True)]) =
     (\<lparr>ListRequest = Some [7]\<rparr>, None) \<and>
   Type (Value (Field 1 (ValueI32 5))) \<noteq> TStruct \<and>
   Args_FromWire message_ops Args_zero
     (ValueStruct [Field 1 (ValueI32 5), Field 1 (ValueStruct [Field 1 (ValueBinary [7])])]) =
     (\<lparr>ListRequest = Some [7]\<rparr>, None) \<and>
   ID (Field 9 (ValueBool True)) \<notin> {0, 1, 2, 3, 4, 5} \<and>
   Result_FromWire sample_shared Result_zero
     (ValueStruct [Field 1 (ValueStruct [Field 1 (ValueBinary [7])]), Field 9 (ValueBool True)]) =
     (Result_zero\<lparr>BadRequestError := Some [7]\<rparr>, None) \<and>
   Result_FromWire sample_shared Result_zero
     (ValueStruct [Field 1 (ValueI32 5), Field 1 (ValueStruct [Field 1 (ValueBinary [7])])]) =
     (Result_zero\<lparr>BadRequestError := Some [7]\<rparr>, None)"
proof -
  let ?f = "Field 1 (ValueStruct [Field 1 (ValueBinary [7])])"
  let ?u = "Field 9 (ValueBool True)"
  let ?m = "Field 1 (ValueI32 5)"
  have a: "Args_FromWire message_ops Args_zero (ValueStruct [?f]) =
      (\<lparr>ListRequest = Some [7]\<rparr>, None)"
    by (simp add: Args_FromWire_def Args_field_def struct_Read_def Args_zero_def sample_defs)
  have r: "Result_FromWire sample_shared Result_zero (ValueStruct [?f]) =
      (Result_zero\<lparr>BadRequestError := Some [7]\<rparr>, None)"
    by (simp add: Result_FromWire_def Result_field_def struct_Read_def Result_zero_def
        Result_count_def sample_defs)
  have u1: "ID ?u \<noteq> 1" and u2: "ID ?u \<notin> {0, 1, 2, 3, 4, 5}"
    and m1: "Type (Value ?m) \<noteq> TStruct"
    by simp_all
  show ?thesis
    using a r u1 u2 m1
      FromWire_lenient [where u = ?u and f = ?f and g = ?f and rq = message_ops
        and a = Args_zero and S = sample_shared and v = Result_zero]
      FromWire_lenient [where u = ?m and f = ?f and g = ?f and rq = message_ops
        and a = Args_zero and S = sample_shared and v = Result_zero]
    by (simp del: Result_FromWire_def)
qed

subsection \<open>Wrapping a success\<close>

text \<open>
  Claim C8, as the code has it. With a nil error \<^verbatim>\<open>WrapResponse\<close> returns a nil error
  and a result whose \<^verbatim>\<open>Success\<close> slot is the given value and whose exception slots are
  nil. When the value is not nil and its own encoder accepts it, \<^verbatim>\<open>ToWire\<close> of that
  result succeeds, with the one field 0.
\<close>

theorem WrapResponse_success:
  "WrapResponse success (None :: ('bre, 'ise, 'ene, 'sbe, 'cvn, 'oth) go_error option) =
     (Some \<lparr>Success = success, BadRequestError = None, InternalServiceError = None,
        EntityNotExistError = None, ServiceBusyError = None,
        ClientVersionNotSupportedError = None\<rparr>, None) \<and>
   (ToWire_of (Response_ops (S :: ('rs, 'bre, 'ise, 'ene, 'sbe, 'cvn, 'oth) shared_ops)) s =
      Inr w \<longrightarrow>
      Result_ToWire S
        \<lparr>Success = Some s, BadRequestError = None, InternalServiceError = None,
           EntityNotExistError = None, ServiceBusyError = None,
           ClientVersionNotSupportedError = None\<rparr> = Inr (ValueStruct [Field 0 w]))"
  by (simp add: WrapResponse_def Result_zero_def Result_ToWire_def put_Field_def and_then_def)

theorem WrapResponse_success_witness:
  "ToWire_of (Response_ops sample_shared) [7] = Inr (ValueStruct [Field 1 (ValueBinary [7])]) \<and>
   WrapResponse (Some [7 :: 8 word]) (None :: sample_error option) =
     (Some \<lparr>Success = Some [7], BadRequestError = None, InternalServiceError = None,
        EntityNotExistError = None, ServiceBusyError = None,
        ClientVersionNotSupportedError = None\<rparr>, None) \<and>
   Result_ToWire sample_shared
     \<lparr>Success = Some [7], BadRequestError = None, InternalServiceError = None,
        EntityNotExistError = None, ServiceBusyError = None,
        ClientVersionNotSupportedError = None\<rparr> =
     Inr (ValueStruct [Field 0 (ValueStruct [Field 1 (ValueBinary [7])])])"
proof -
  have a: "ToWire_of (Response_ops sample_shared) [7] =
      Inr (ValueStruct [Field 1 (ValueBinary [7])])"
    by (simp add: sample_defs)
  show ?thesis
    using a
      WrapResponse_success [where S = sample_shared and s = "[7]"
        and w = "ValueStruct [Field 1 (ValueBinary [7])]" and success = "Some [7 :: 8 word]"]
    by blast
qed

text \<open>
  As claim C8 is written it fails for the nil success value: the result that
  \<^verbatim>\<open>WrapResponse\<close> builds has no populated slot, and \<^verbatim>\<open>ToWire\<close> rejects it.
\<close>

theorem WrapResponse_success_counterexample:
  "WrapResponse (None :: message option) (None :: sample_error option) =
     (Some \<lparr>Success = None, BadRequestError = None, InternalServiceError = None,
          EntityNotExistError = None, ServiceBusyError = None,
          ClientVersionNotSupportedError = None\<rparr>, None) \<and>
   Result_ToWire sample_shared
     \<lparr>Success = None, BadRequestError = None, InternalServiceError = None,
          EntityNotExistError = None, ServiceBusyError = None,
          ClientVersionNotSupportedError = None\<rparr> =
     Inl (ErrorString
       ''WorkflowService_ListClosedWorkflowExecutions_Result should have exactly one field: got 0 fields'')"
  by (simp add: WrapResponse_def Result_zero_def Result_ToWire_def put_Field_def and_then_def
      arity_error_def decimal_small)

subsection \<open>Decoded results unwrap\<close>

lemma UnwrapResponse_empty:
  "(UnwrapResponse r = (None, Some (ErrorString ''expected a non-void result''))) =
   (Result_count r = 0)"
  unfolding UnwrapResponse_def Result_count_def
  by (cases "BadRequestError r"; cases "InternalServiceError r"; cases "EntityNotExistError r";
      cases "ServiceBusyError r"; cases "ClientVersionNotSupportedError r"; cases "Success r";
      simp)

lemma FromWire_accepts:
  "Result_FromWire S v w = (v', None) \<Longrightarrow> Result_count v' = 1"
  by (auto simp: Result_FromWire_def Let_def split: prod.splits option.splits if_splits)

lemma Unwrap_one:
  assumes "Result_count r = 1"
  shows "(\<exists>s. Success r = Some s \<and> UnwrapResponse r = (Some s, None)) \<or>
    (\<exists>e. UnwrapResponse r = (None, Some e) \<and> IsException (Some e) \<and> \<not> typed_nil e)"
  using assms
  by (cases rule: Result_count_one_cases)
     (simp_all add: UnwrapResponse_def Result_zero_def IsException_def typed_nil_def)

text \<open>
  Claim C10. When \<^verbatim>\<open>FromWire\<close> of the result struct returns no error, whatever the wire
  value and the receiver, the struct has exactly one populated slot, and
  \<^verbatim>\<open>UnwrapResponse\<close> of it does not return the error "expected a non-void result": it
  returns the success payload, which is not nil, or one of the five exceptions, which is
  not nil. \<^verbatim>\<open>UnwrapResponse\<close> returns that error exactly for the results with no
  populated slot, which decoding never accepts.
\<close>

theorem decoded_Result_unwraps:
  "(Result_FromWire (S :: ('rs, 'bre, 'ise, 'ene, 'sbe, 'cvn, 'oth) shared_ops) v w =
      (v', None) \<longrightarrow>
      Result_count v' = 1 \<and>
      UnwrapResponse v' \<noteq>
        (None, Some (ErrorString ''expected a non-void result''
           :: ('bre, 'ise, 'ene, 'sbe, 'cvn, 'oth) go_error)) \<and>
      ((\<exists>s. Success v' = Some s \<and>
          UnwrapResponse v' =
            (Some s, None :: ('bre, 'ise, 'ene, 'sbe, 'cvn, 'oth) go_error option)) \<or>
       (\<exists>e :: ('bre, 'ise, 'ene, 'sbe, 'cvn, 'oth) go_error.
          UnwrapResponse v' = (None, Some e) \<and> IsException (Some e) \<and> \<not> typed_nil e))) \<and>
   (UnwrapResponse r =
      (None, Some (ErrorString ''expected a non-void result''
         :: ('bre, 'ise, 'ene, 'sbe, 'cvn, 'oth) go_error))) =
     (Result_count (r :: ('rs, 'bre, 'ise, 'ene, 'sbe, 'cvn) Result) = 0)"
proof (intro conjI impI)
  assume a: "Result_FromWire S v w = (v', None)"
  then show c: "Result_count v' = 1" by (rule FromWire_accepts)
  then show "UnwrapResponse v' \<noteq>
        (None, Some (ErrorString ''expected a non-void result''
           :: ('bre, 'ise, 'ene, 'sbe, 'cvn, 'oth) go_error))"
    using UnwrapResponse_empty [of v'] by simp
  from c show "(\<exists>s. Success v' = Some s \<and>
          UnwrapResponse v' =
            (Some s, None :: ('bre, 'ise, 'ene, 'sbe, 'cvn, 'oth) go_error option)) \<or>
       (\<exists>e :: ('bre, 'ise, 'ene, 'sbe, 'cvn, 'oth) go_error.
          UnwrapResponse v' = (None, Some e) \<and> IsException (Some e) \<and> \<not> typed_nil e)"
    by (rule Unwrap_one)
next
  show "(UnwrapResponse r =
      (None, Some (ErrorString ''expected a non-void result''
         :: ('bre, 'ise, 'ene, 'sbe, 'cvn, 'oth) go_error))) =
     (Result_count r = 0)" by (rule UnwrapResponse_empty)
qed

theorem decoded_Result_unwraps_witness:
  "Result_FromWire sample_shared Result_zero
     (ValueStruct [Field 0 (ValueStruct [Field 1 (ValueBinary [7])])]) =
     (Result_zero\<lparr>Success := Some [7]\<rparr>, None) \<and>
   Result_count (Result_zero\<lparr>Success := Some [7 :: 8 word]\<rparr>
     :: (message, message, message, message, message, message) Result) = 1 \<and>
   UnwrapResponse (Result_zero\<lparr>Success := Some [7 :: 8 word]\<rparr>
     :: (message, message, message, message, message, message) Result) \<noteq>
     (None, Some (ErrorString ''expected a non-void result'' :: sample_error)) \<and>
   UnwrapResponse (Result_zero
     :: (message, message, message, message, message, message) Result) =
     (None, Some (ErrorString ''expected a non-void result'' :: sample_error)) \<and>
   Result_count (Result_zero
     :: (message, message, message, message, message, message) Result) = 0"
proof -
  have a: "Result_FromWire sample_shared Result_zero
     (ValueStruct [Field 0 (ValueStruct [Field 1 (ValueBinary [7])])]) =
     (Result_zero\<lparr>Success := Some [7]\<rparr>, None)"
    by (simp add: Result_FromWire_def Result_field_def struct_Read_def Result_zero_def
        Result_count_def sample_defs)
  have z: "Result_count (Result_zero
     :: (message, message, message, message, message, message) Result) = 0"
    by (simp add: Result_count_def Result_zero_def)
  show ?thesis
    using a z
      decoded_Result_unwraps [where S = sample_shared and v = Result_zero
        and w = "ValueStruct [Field 0 (ValueStruct [Field 1 (ValueBinary [7])])]"
        and v' = "Result_zero\<lparr>Success := Some [7]\<rparr>" and r = Result_zero]
    by blast
qed

end
